theory Spec2Isabelle
  imports Complex_Main "HOL-Library.Word" "HOL-Library.Signed_Division"
begin

unbundle bit_operations_syntax

section \<open>Numbers of the player\<close>

text \<open>
  The fixed-width integers of \<^verbatim>\<open>fpl_ffmpeg.cpp\<close> are words: \<open>+\<close> and \<open>-\<close> wrap around,
  \<open>sint\<close> reads a word as two's complement, \<open><s\<close> and \<open>\<le>s\<close> compare signed and the
  plain order compares unsigned. \<^verbatim>\<open>bool32\<close> fields hold only \<^verbatim>\<open>true\<close> and \<^verbatim>\<open>false\<close>
  in the modelled code and are booleans.
\<close>

type_synonym int32 = "32 word"
type_synonym int64 = "64 word"
type_synonym uint64 = "64 word"

text \<open>
  A C \<^verbatim>\<open>double\<close> is either not-a-number or a number. The numbers are idealised as reals:
  rounding, signed zeros and the two infinities are not represented. What the model
  keeps is what the player's branches depend on: NaN is absorbing for the arithmetic,
  every ordered comparison with NaN is false, and \<^verbatim>\<open>!=\<close> with NaN is true.
\<close>

datatype double = NaN | Dbl real

fun isnan :: "double \<Rightarrow> bool" where
  "isnan NaN = True"
| "isnan (Dbl a) = False"

fun dadd :: "double \<Rightarrow> double \<Rightarrow> double" where
  "dadd (Dbl a) (Dbl b) = Dbl (a + b)"
| "dadd _ _ = NaN"

fun dsub :: "double \<Rightarrow> double \<Rightarrow> double" where
  "dsub (Dbl a) (Dbl b) = Dbl (a - b)"
| "dsub _ _ = NaN"

fun dmul :: "double \<Rightarrow> double \<Rightarrow> double" where
  "dmul (Dbl a) (Dbl b) = Dbl (a * b)"
| "dmul _ _ = NaN"

text \<open>
  IEEE division by zero gives an infinity (or NaN for \<open>0 / 0\<close>), which the model cannot
  represent; it yields \<open>NaN\<close>. The one division of the modelled code, in
  \<^verbatim>\<open>UpdateExternalClockSpeed\<close>, is guarded by \<^verbatim>\<open>speed != 1.0\<close>.
\<close>

fun ddiv :: "double \<Rightarrow> double \<Rightarrow> double" where
  "ddiv (Dbl a) (Dbl b) = (if b = 0 then NaN else Dbl (a / b))"
| "ddiv _ _ = NaN"

fun dneg :: "double \<Rightarrow> double" where
  "dneg (Dbl a) = Dbl (- a)"
| "dneg NaN = NaN"

fun fabs :: "double \<Rightarrow> double" where
  "fabs (Dbl a) = Dbl \<bar>a\<bar>"
| "fabs NaN = NaN"

fun dlt :: "double \<Rightarrow> double \<Rightarrow> bool" where
  "dlt (Dbl a) (Dbl b) = (a < b)"
| "dlt _ _ = False"

fun dle :: "double \<Rightarrow> double \<Rightarrow> bool" where
  "dle (Dbl a) (Dbl b) = (a \<le> b)"
| "dle _ _ = False"

definition dgt :: "double \<Rightarrow> double \<Rightarrow> bool" where
  "dgt a b = dlt b a"

definition dge :: "double \<Rightarrow> double \<Rightarrow> bool" where
  "dge a b = dle b a"

fun dne :: "double \<Rightarrow> double \<Rightarrow> bool" where
  "dne (Dbl a) (Dbl b) = (a \<noteq> b)"
| "dne _ _ = True"

text \<open>
  The macros \<^verbatim>\<open>fplMax\<close> and \<^verbatim>\<open>fplMin\<close> of \<^verbatim>\<open>final_platform_layer.h\<close> and \<^verbatim>\<open>FFMAX\<close> of
  FFmpeg are the usual conditional expressions \<^verbatim>\<open>((a) > (b) ? (a) : (b))\<close> and
  \<^verbatim>\<open>((a) < (b) ? (a) : (b))\<close>: with a NaN operand the comparison is false and the second
  operand is the result.
\<close>

definition fplMax :: "double \<Rightarrow> double \<Rightarrow> double" where
  "fplMax a b = (if dgt a b then a else b)"

definition fplMin :: "double \<Rightarrow> double \<Rightarrow> double" where
  "fplMin a b = (if dlt a b then a else b)"

definition FFMAX :: "double \<Rightarrow> double \<Rightarrow> double" where
  "FFMAX a b = (if dgt a b then a else b)"

definition AV_TIME_BASE :: real where
  "AV_TIME_BASE = 1000000"

section \<open>Constants\<close>

definition MAX_FRAME_QUEUE_COUNT :: int32 where
  "MAX_FRAME_QUEUE_COUNT = 8"

definition MAX_PACKET_QUEUE_SIZE :: uint64 where
  "MAX_PACKET_QUEUE_SIZE = 16 * 1024 * 1024"

definition MIN_PACKET_FRAMES :: int32 where
  "MIN_PACKET_FRAMES = 25"

definition EXTERNAL_CLOCK_MIN_FRAMES :: int32 where
  "EXTERNAL_CLOCK_MIN_FRAMES = 2"

definition EXTERNAL_CLOCK_MAX_FRAMES :: int32 where
  "EXTERNAL_CLOCK_MAX_FRAMES = 10"

definition EXTERNAL_CLOCK_SPEED_MIN :: double where
  "EXTERNAL_CLOCK_SPEED_MIN = Dbl 0.900"

definition EXTERNAL_CLOCK_SPEED_MAX :: double where
  "EXTERNAL_CLOCK_SPEED_MAX = Dbl 1.010"

definition EXTERNAL_CLOCK_SPEED_STEP :: double where
  "EXTERNAL_CLOCK_SPEED_STEP = Dbl 0.001"

definition AV_SYNC_THRESHOLD_MIN :: double where
  "AV_SYNC_THRESHOLD_MIN = Dbl 0.04"

definition AV_SYNC_THRESHOLD_MAX :: double where
  "AV_SYNC_THRESHOLD_MAX = Dbl 0.1"

definition AV_NOSYNC_THRESHOLD :: double where
  "AV_NOSYNC_THRESHOLD = Dbl 10.0"

definition AV_SYNC_FRAMEDUP_THRESHOLD :: double where
  "AV_SYNC_FRAMEDUP_THRESHOLD = Dbl 0.1"

section \<open>Clock\<close>

text \<open>
  \<^verbatim>\<open>Clock::queueSerial\<close> is a pointer to an \<^verbatim>\<open>int32_t\<close>. \<^verbatim>\<open>LoadMedia\<close> lets the video and
  audio clocks point at the serial of their decoder's packet queue and the external
  clock at its own \<^verbatim>\<open>serial\<close> field. The three addresses are a datatype, and reading
  through the pointer is a lookup in a memory \<open>mem\<close> of type \<open>serial_ref \<Rightarrow> int32\<close>.
\<close>

datatype serial_ref = VideoQueueSerial | AudioQueueSerial | ExternalClockSerial

record Clock =
  clk_pts :: double
  clk_ptsDrift :: double
  clk_lastUpdated :: double
  clk_speed :: double
  clk_queueSerial :: serial_ref
  clk_serial :: int32
  clk_isPaused :: bool

datatype AVSyncType = AudioMaster | VideoMaster | ExternalClock

text \<open>
  \<open>time\<close> is the value of \<^verbatim>\<open>av_gettime_relative() / (double)AV_TIME_BASE\<close> at the
  call; the paused branch does not read it.
\<close>

definition GetClock :: "(serial_ref \<Rightarrow> int32) \<Rightarrow> Clock \<Rightarrow> double \<Rightarrow> double" where
  "GetClock mem clock time =
     (if mem (clk_queueSerial clock) \<noteq> clk_serial clock then NaN
      else if clk_isPaused clock then clk_pts clock
      else dsub (dadd (clk_ptsDrift clock) time)
             (dmul (dsub time (clk_lastUpdated clock)) (dsub (Dbl 1.0) (clk_speed clock))))"

definition SetClockAt :: "Clock \<Rightarrow> double \<Rightarrow> int32 \<Rightarrow> double \<Rightarrow> Clock" where
  "SetClockAt clock pts serial time =
     clock\<lparr>clk_pts := pts, clk_lastUpdated := time,
           clk_ptsDrift := dsub pts time, clk_serial := serial\<rparr>"

definition SetClock :: "Clock \<Rightarrow> double \<Rightarrow> int32 \<Rightarrow> double \<Rightarrow> Clock" where
  "SetClock clock pts serial time = SetClockAt clock pts serial time"

text \<open>
  \<^verbatim>\<open>SetClockSpeed\<close> reads the clock at \<open>t_get\<close> and sets it at \<open>t_set\<close> (two calls of
  \<^verbatim>\<open>av_gettime_relative\<close>).
\<close>

definition SetClockSpeed ::
  "(serial_ref \<Rightarrow> int32) \<Rightarrow> Clock \<Rightarrow> double \<Rightarrow> double \<Rightarrow> double \<Rightarrow> Clock" where
  "SetClockSpeed mem clock speed t_get t_set =
     (SetClock clock (GetClock mem clock t_get) (clk_serial clock) t_set)\<lparr>clk_speed := speed\<rparr>"

definition InitClock :: "Clock \<Rightarrow> serial_ref \<Rightarrow> double \<Rightarrow> Clock" where
  "InitClock clock queueSerial time =
     SetClock (clock\<lparr>clk_speed := Dbl 1.0, clk_isPaused := False,
                     clk_queueSerial := queueSerial\<rparr>) NaN (- 1) time"

text \<open>
  \<^verbatim>\<open>SyncClockToSlave(c, slave)\<close> reads \<open>c\<close> at \<open>t_c\<close> and \<open>slave\<close> at \<open>t_slave\<close>, and
  sets \<open>c\<close> at \<open>t_set\<close>.
\<close>

definition SyncClockToSlave ::
  "(serial_ref \<Rightarrow> int32) \<Rightarrow> Clock \<Rightarrow> Clock \<Rightarrow> double \<Rightarrow> double \<Rightarrow> double \<Rightarrow> Clock" where
  "SyncClockToSlave mem c slave t_c t_slave t_set =
     (let clock = GetClock mem c t_c;
          slaveClock = GetClock mem slave t_slave
      in if \<not> isnan slaveClock \<and>
            (isnan clock \<or> dgt (fabs (dsub clock slaveClock)) AV_NOSYNC_THRESHOLD)
         then SetClock c slaveClock (clk_serial slave) t_set
         else c)"

text \<open>The all-zero clock of \<^verbatim>\<open>PlayerState state = {}\<close>.\<close>

definition zero_Clock :: Clock where
  "zero_Clock = \<lparr>clk_pts = Dbl 0, clk_ptsDrift = Dbl 0, clk_lastUpdated = Dbl 0,
     clk_speed = Dbl 0, clk_queueSerial = VideoQueueSerial, clk_serial = 0,
     clk_isPaused = False\<rparr>"

section \<open>Packet queue\<close>

text \<open>
  \<^verbatim>\<open>AVPacket::data\<close> is a pointer. The code only asks whether it is null, the address of
  \<^verbatim>\<open>globalFlushPacket\<close>, or something else (a payload, identified by its address).
\<close>

datatype pkt_data = NullData | FlushData | Payload nat

record AVPacket =
  pkt_data :: pkt_data
  pkt_size :: int32
  pkt_duration :: int64
  pkt_stream_index :: int32
  pkt_pts :: int64
  pkt_dts :: int64

text \<open>A \<^verbatim>\<open>PacketList\<close> node; the \<^verbatim>\<open>next\<close> pointers are the order of the list \<open>pq_packets\<close>.\<close>

record PacketList =
  pl_packet :: AVPacket
  pl_serial :: int32

record PacketQueue =
  pq_packets :: "PacketList list"
  pq_size :: uint64
  pq_duration :: uint64
  pq_packetCount :: int32
  pq_serial :: int32
  pq_addedSignal :: bool
  pq_freeSignal :: bool

definition AV_NOPTS_VALUE :: int64 where
  "AV_NOPTS_VALUE = 0x8000000000000000"

text \<open>
  \<^verbatim>\<open>av_init_packet\<close> of FFmpeg resets the timestamps, the duration and the stream index
  and leaves \<^verbatim>\<open>data\<close> and \<^verbatim>\<open>size\<close> alone.
\<close>

definition av_init_packet :: "AVPacket \<Rightarrow> AVPacket" where
  "av_init_packet p = p\<lparr>pkt_duration := 0, pkt_stream_index := 0,
     pkt_pts := AV_NOPTS_VALUE, pkt_dts := AV_NOPTS_VALUE\<rparr>"

definition zero_AVPacket :: AVPacket where
  "zero_AVPacket = \<lparr>pkt_data = NullData, pkt_size = 0, pkt_duration = 0,
     pkt_stream_index = 0, pkt_pts = 0, pkt_dts = 0\<rparr>"

text \<open>\<^verbatim>\<open>globalFlushPacket\<close> as \<^verbatim>\<open>main\<close> initialises it.\<close>

definition globalFlushPacket :: AVPacket where
  "globalFlushPacket = (av_init_packet zero_AVPacket)\<lparr>pkt_data := FlushData\<rparr>"

definition IsFlushPacket :: "PacketList \<Rightarrow> bool" where
  "IsFlushPacket packet = (pkt_data (pl_packet packet) = FlushData)"

text \<open>\<^verbatim>\<open>AllocatePacket\<close>: a zeroed node, when \<^verbatim>\<open>av_mallocz\<close> succeeds.\<close>

definition zero_PacketList :: PacketList where
  "zero_PacketList = \<lparr>pl_packet = zero_AVPacket, pl_serial = 0\<rparr>"

definition FlushPacketQueue :: "PacketQueue \<Rightarrow> PacketQueue" where
  "FlushPacketQueue queue =
     queue\<lparr>pq_packets := [], pq_packetCount := 0, pq_size := 0, pq_duration := 0\<rparr>"

text \<open>
  \<open>node_size\<close> is \<^verbatim>\<open>sizeof(PacketList)\<close>, a constant of the platform. The packet's
  \<^verbatim>\<open>int\<close> size is converted to \<^verbatim>\<open>size_t\<close> (sign extended) before the addition.
\<close>

definition PushPacket :: "uint64 \<Rightarrow> PacketQueue \<Rightarrow> PacketList \<Rightarrow> PacketQueue" where
  "PushPacket node_size queue packet =
     (let serial = (if IsFlushPacket packet then pq_serial queue + 1 else pq_serial queue);
          node = packet\<lparr>pl_serial := serial\<rparr>
      in queue\<lparr>pq_serial := serial,
               pq_packets := pq_packets queue @ [node],
               pq_size := pq_size queue + (scast (pkt_size (pl_packet packet)) + node_size),
               pq_duration := pq_duration queue + pkt_duration (pl_packet packet),
               pq_packetCount := pq_packetCount queue + 1,
               pq_addedSignal := True\<rparr>)"

definition PopPacket :: "uint64 \<Rightarrow> PacketQueue \<Rightarrow> PacketList option \<times> PacketQueue" where
  "PopPacket node_size queue =
     (case pq_packets queue of
        [] \<Rightarrow> (None, queue)
      | p # n \<Rightarrow>
          (Some p,
           queue\<lparr>pq_packets := n,
                 pq_duration := pq_duration queue - pkt_duration (pl_packet p),
                 pq_size := pq_size queue - (scast (pkt_size (pl_packet p)) + node_size),
                 pq_packetCount := pq_packetCount queue - 1\<rparr>))"

text \<open>
  \<open>alloc_ok\<close> says whether \<^verbatim>\<open>AquirePacket\<close> got a node; the boolean of the result is
  the function's return value.
\<close>

definition PushNullPacket ::
  "uint64 \<Rightarrow> bool \<Rightarrow> PacketQueue \<Rightarrow> int32 \<Rightarrow> bool \<times> PacketQueue" where
  "PushNullPacket node_size alloc_ok queue streamIndex =
     (if alloc_ok
      then (True, PushPacket node_size queue
              (zero_PacketList\<lparr>pl_packet := (av_init_packet zero_AVPacket)
                 \<lparr>pkt_data := NullData, pkt_size := 0, pkt_stream_index := streamIndex\<rparr>\<rparr>))
      else (False, queue))"

definition PushFlushPacket :: "uint64 \<Rightarrow> bool \<Rightarrow> PacketQueue \<Rightarrow> bool \<times> PacketQueue" where
  "PushFlushPacket node_size alloc_ok queue =
     (if alloc_ok
      then (True, PushPacket node_size queue (zero_PacketList\<lparr>pl_packet := globalFlushPacket\<rparr>))
      else (False, queue))"

text \<open>Sequences of queue operations, and the number of flush packets a sequence pushes.\<close>

datatype pq_op =
    OpPushPacket PacketList
  | OpPopPacket
  | OpPushNullPacket bool int32
  | OpPushFlushPacket bool
  | OpFlushPacketQueue

fun pq_apply :: "uint64 \<Rightarrow> PacketQueue \<Rightarrow> pq_op \<Rightarrow> PacketQueue" where
  "pq_apply node_size q (OpPushPacket p) = PushPacket node_size q p"
| "pq_apply node_size q OpPopPacket = snd (PopPacket node_size q)"
| "pq_apply node_size q (OpPushNullPacket alloc_ok i) = snd (PushNullPacket node_size alloc_ok q i)"
| "pq_apply node_size q (OpPushFlushPacket alloc_ok) = snd (PushFlushPacket node_size alloc_ok q)"
| "pq_apply node_size q OpFlushPacketQueue = FlushPacketQueue q"

fun pq_run :: "uint64 \<Rightarrow> PacketQueue \<Rightarrow> pq_op list \<Rightarrow> PacketQueue" where
  "pq_run node_size q [] = q"
| "pq_run node_size q (x # xs) = pq_run node_size (pq_apply node_size q x) xs"

fun pushes_flush :: "pq_op \<Rightarrow> bool" where
  "pushes_flush (OpPushPacket p) = IsFlushPacket p"
| "pushes_flush (OpPushFlushPacket alloc_ok) = alloc_ok"
| "pushes_flush _ = False"

definition flush_pushes :: "pq_op list \<Rightarrow> nat" where
  "flush_pushes ops = length (filter pushes_flush ops)"

definition INT32_MAX :: int where
  "INT32_MAX = 2147483647"

section \<open>Frame queue\<close>

record Frame =
  fr_pts :: double
  fr_duration :: double
  fr_pos :: int64
  fr_serial :: int32

text \<open>
  The ring's bookkeeping. The \<^verbatim>\<open>frames\<close> array itself is left out: the operations below
  hand out slot indices and never read or write a field of a \<^verbatim>\<open>Frame\<close>. All fields are
  \<^verbatim>\<open>int32_t\<close>; their comparisons are signed, and \<^verbatim>\<open>%\<close> is the truncating remainder \<open>c_rem\<close>.
  A remainder by zero is undefined in C++; \<open>c_rem a 0\<close> is \<open>a\<close>.
\<close>

definition c_rem :: "int32 \<Rightarrow> int32 \<Rightarrow> int32" where
  "c_rem a b = word_of_int (sint a smod sint b)"

record FrameQueue =
  fq_readIndex :: int32
  fq_writeIndex :: int32
  fq_count :: int32
  fq_capacity :: int32
  fq_keepLast :: int32
  fq_readIndexShown :: int32
  fq_isValid :: bool

definition zero_FrameQueue :: FrameQueue where
  "zero_FrameQueue = \<lparr>fq_readIndex = 0, fq_writeIndex = 0, fq_count = 0, fq_capacity = 0,
     fq_keepLast = 0, fq_readIndexShown = 0, fq_isValid = False\<rparr>"

text \<open>
  \<^verbatim>\<open>fplMin(capacity, MAX_FRAME_QUEUE_COUNT)\<close> compares an \<^verbatim>\<open>int32_t\<close> with a \<^verbatim>\<open>uint32_t\<close>,
  hence unsigned. \<open>alloc_ok\<close> says whether every \<^verbatim>\<open>AllocateFrame\<close> succeeded; the mutex
  and the signal are taken to initialise.
\<close>

definition InitFrameQueue :: "bool \<Rightarrow> int32 \<Rightarrow> int32 \<Rightarrow> bool \<times> FrameQueue" where
  "InitFrameQueue alloc_ok capacity keepLast =
     (let queue = zero_FrameQueue\<lparr>fq_capacity :=
            (if capacity < MAX_FRAME_QUEUE_COUNT then capacity else MAX_FRAME_QUEUE_COUNT)\<rparr>
      in if \<not> alloc_ok then (False, queue)
         else (True, queue\<lparr>fq_keepLast := (if keepLast \<noteq> 0 then 1 else 0),
                            fq_isValid := True\<rparr>))"

text \<open>
  The two peeks read the owner's stop flag twice (\<open>stopped1\<close> under the lock,
  \<open>stopped2\<close> after it) and return the index of the slot, or \<open>None\<close> for \<^verbatim>\<open>false\<close>.
\<close>

definition PeekWritableFromFrameQueue :: "FrameQueue \<Rightarrow> bool \<Rightarrow> bool \<Rightarrow> int32 option" where
  "PeekWritableFromFrameQueue queue stopped1 stopped2 =
     (if fq_capacity queue \<le>s fq_count queue \<or> stopped1 then None
      else if stopped2 then None
      else Some (fq_writeIndex queue))"

definition PeekReadableFromFrameQueue :: "FrameQueue \<Rightarrow> bool \<Rightarrow> bool \<Rightarrow> int32 option" where
  "PeekReadableFromFrameQueue queue stopped1 stopped2 =
     (if fq_count queue - fq_readIndexShown queue \<le>s 0 \<or> stopped1 then None
      else if stopped2 then None
      else Some (c_rem (fq_readIndex queue + fq_readIndexShown queue) (fq_capacity queue)))"

definition NextWritable :: "FrameQueue \<Rightarrow> FrameQueue" where
  "NextWritable queue =
     queue\<lparr>fq_writeIndex := c_rem (fq_writeIndex queue + 1) (fq_capacity queue),
           fq_count := fq_count queue + 1\<rparr>"

definition NextReadable :: "FrameQueue \<Rightarrow> FrameQueue" where
  "NextReadable queue =
     (if fq_keepLast queue \<noteq> 0 \<and> fq_readIndexShown queue = 0
      then queue\<lparr>fq_readIndexShown := 1\<rparr>
      else queue\<lparr>fq_readIndex := c_rem (fq_readIndex queue + 1) (fq_capacity queue),
                 fq_count := fq_count queue - 1\<rparr>)"

definition GetFrameQueueRemainingCount :: "FrameQueue \<Rightarrow> int32" where
  "GetFrameQueueRemainingCount queue = fq_count queue - fq_readIndexShown queue"

text \<open>
  A run of the producer and the consumer on one queue. \<open>fr_may_write\<close> holds when a
  \<^verbatim>\<open>PeekWritableFromFrameQueue\<close> has succeeded and no \<^verbatim>\<open>NextWritable\<close> has used it up;
  \<open>fr_may_read\<close> likewise for the reading side. A step is \<open>None\<close> when the caller invokes
  \<^verbatim>\<open>NextWritable\<close> or \<^verbatim>\<open>NextReadable\<close> without such a peek before it.
\<close>

datatype fq_op =
    OpPeekWritable bool bool
  | OpNextWritable
  | OpPeekReadable bool bool
  | OpNextReadable

record fq_run =
  fr_queue :: FrameQueue
  fr_may_write :: bool
  fr_may_read :: bool

fun fq_step :: "fq_run \<Rightarrow> fq_op \<Rightarrow> fq_run option" where
  "fq_step r (OpPeekWritable s1 s2) =
     Some (if PeekWritableFromFrameQueue (fr_queue r) s1 s2 \<noteq> None
           then r\<lparr>fr_may_write := True\<rparr> else r)"
| "fq_step r OpNextWritable =
     (if fr_may_write r
      then Some (r\<lparr>fr_queue := NextWritable (fr_queue r), fr_may_write := False\<rparr>)
      else None)"
| "fq_step r (OpPeekReadable s1 s2) =
     Some (if PeekReadableFromFrameQueue (fr_queue r) s1 s2 \<noteq> None
           then r\<lparr>fr_may_read := True\<rparr> else r)"
| "fq_step r OpNextReadable =
     (if fr_may_read r
      then Some (r\<lparr>fr_queue := NextReadable (fr_queue r), fr_may_read := False\<rparr>)
      else None)"

fun fq_steps :: "fq_run \<Rightarrow> fq_op list \<Rightarrow> fq_run option" where
  "fq_steps r [] = Some r"
| "fq_steps r (x # xs) = (case fq_step r x of None \<Rightarrow> None | Some r' \<Rightarrow> fq_steps r' xs)"

definition fq_start :: "int32 \<Rightarrow> int32 \<Rightarrow> fq_run" where
  "fq_start capacity keepLast =
     \<lparr>fr_queue = snd (InitFrameQueue True capacity keepLast),
      fr_may_write = False, fr_may_read = False\<rparr>"

definition fq_invariant :: "FrameQueue \<Rightarrow> bool" where
  "fq_invariant q =
     (0 \<le> sint (fq_count q) \<and> sint (fq_count q) \<le> sint (fq_capacity q) \<and>
      0 \<le> sint (GetFrameQueueRemainingCount q) \<and>
      (fq_readIndexShown q = 0 \<or> fq_readIndexShown q = 1))"

section \<open>Player state\<close>

text \<open>
  The parts of FFmpeg's \<^verbatim>\<open>AVStream\<close> that the modelled code reads. \<^verbatim>\<open>av_q2d\<close> is FFmpeg's
  \<^verbatim>\<open>a.num / (double) a.den\<close>.
\<close>

record AVRational =
  q_num :: int32
  q_den :: int32

record AVStream =
  st_disposition :: int32
  st_time_base :: AVRational

definition av_q2d :: "AVRational \<Rightarrow> double" where
  "av_q2d a = ddiv (Dbl (real_of_int (sint (q_num a)))) (Dbl (real_of_int (sint (q_den a))))"

definition AV_DISPOSITION_ATTACHED_PIC :: int32 where
  "AV_DISPOSITION_ATTACHED_PIC = 0x0400"

definition AVSEEK_FLAG_BACKWARD :: int32 where
  "AVSEEK_FLAG_BACKWARD = 1"

definition AVSEEK_FLAG_BYTE :: int32 where
  "AVSEEK_FLAG_BYTE = 2"

definition AVSEEK_FLAG_ANY :: int32 where
  "AVSEEK_FLAG_ANY = 4"

text \<open>
  \<^verbatim>\<open>MediaStream::stream\<close> is a pointer that \<^verbatim>\<open>OpenStreamComponent\<close> sets together with
  \<^verbatim>\<open>streamIndex\<close> and \<^verbatim>\<open>isValid\<close>; the code dereferences it only behind
  \<^verbatim>\<open>streamIndex < 0 ||\<close>. The model holds the pointed-to stream by value.
\<close>

record MediaStream =
  ms_stream :: AVStream
  ms_streamIndex :: int32
  ms_isValid :: bool

record Decoder =
  dec_packetsQueue :: PacketQueue
  dec_frameQueue :: FrameQueue
  dec_resumeSignal :: bool
  dec_isEOF :: bool
  dec_pktSerial :: int32
  dec_finishedSerial :: int32

record VideoContext =
  v_stream :: MediaStream
  v_decoder :: Decoder
  v_clock :: Clock

record AudioContext =
  a_stream :: MediaStream
  a_decoder :: Decoder
  a_clock :: Clock

record SeekState =
  sk_pos :: int64
  sk_rel :: int64
  sk_seekFlags :: int32
  sk_isRequired :: bool

record ReaderContext =
  rd_resumeSignal :: bool
  rd_stopRequest :: bool
  rd_isEOF :: bool

record PlayerState =
  ps_reader :: ReaderContext
  ps_video :: VideoContext
  ps_audio :: AudioContext
  ps_externalClock :: Clock
  ps_seek :: SeekState
  ps_frameTimer :: double
  ps_maxFrameDuration :: double
  ps_syncType :: AVSyncType
  ps_readPauseReturn :: int32
  ps_step :: int32
  ps_isInfiniteBuffer :: bool
  ps_isRealTime :: bool
  ps_isPaused :: bool
  ps_lastPaused :: bool

text \<open>What the three \<^verbatim>\<open>queueSerial\<close> pointers point at in a player state.\<close>

fun serial_mem :: "PlayerState \<Rightarrow> serial_ref \<Rightarrow> int32" where
  "serial_mem state VideoQueueSerial = pq_serial (dec_packetsQueue (v_decoder (ps_video state)))"
| "serial_mem state AudioQueueSerial = pq_serial (dec_packetsQueue (a_decoder (ps_audio state)))"
| "serial_mem state ExternalClockSerial = clk_serial (ps_externalClock state)"

section \<open>Reader: enough packets, queue limit\<close>

text \<open>
  \<^verbatim>\<open>streamIndex < 0\<close> is a signed comparison. \<^verbatim>\<open>queue.packetCount > MIN_PACKET_FRAMES\<close>
  compares an \<^verbatim>\<open>int32_t\<close> with a \<^verbatim>\<open>uint32_t\<close> constant, hence unsigned (as are the
  comparisons with \<^verbatim>\<open>EXTERNAL_CLOCK_MIN_FRAMES\<close> and \<^verbatim>\<open>EXTERNAL_CLOCK_MAX_FRAMES\<close> below).
\<close>

definition StreamHasEnoughPackets :: "AVStream \<Rightarrow> int32 \<Rightarrow> PacketQueue \<Rightarrow> bool" where
  "StreamHasEnoughPackets stream streamIndex queue =
     (streamIndex <s 0 \<or>
      st_disposition stream AND AV_DISPOSITION_ATTACHED_PIC \<noteq> 0 \<or>
      (MIN_PACKET_FRAMES < pq_packetCount queue \<and>
       (pq_duration queue = 0 \<or>
        dgt (dmul (av_q2d (st_time_base stream))
                  (Dbl (real (unat (pq_duration queue))))) (Dbl 1.0))))"

text \<open>
  The condition of \<^verbatim>\<open>PacketReadThreadProc\<close> under which the reader sets \<^verbatim>\<open>skipWait\<close>, sleeps
  10 ms and continues its loop without reading a packet.
\<close>

definition reader_queue_limit :: "PlayerState \<Rightarrow> bool" where
  "reader_queue_limit state =
     ((\<not> ps_isInfiniteBuffer state \<and>
       MAX_PACKET_QUEUE_SIZE <
         pq_size (dec_packetsQueue (a_decoder (ps_audio state))) +
         pq_size (dec_packetsQueue (v_decoder (ps_video state)))) \<or>
      (StreamHasEnoughPackets (ms_stream (a_stream (ps_audio state)))
         (ms_streamIndex (a_stream (ps_audio state)))
         (dec_packetsQueue (a_decoder (ps_audio state))) \<and>
       StreamHasEnoughPackets (ms_stream (v_stream (ps_video state)))
         (ms_streamIndex (v_stream (ps_video state)))
         (dec_packetsQueue (v_decoder (ps_video state)))))"

section \<open>Master clock\<close>

definition GetMasterSyncType :: "PlayerState \<Rightarrow> AVSyncType" where
  "GetMasterSyncType state =
     (if ps_syncType state = VideoMaster then
        (if ms_isValid (v_stream (ps_video state)) then VideoMaster else AudioMaster)
      else if ps_syncType state = AudioMaster then
        (if ms_isValid (a_stream (ps_audio state)) then AudioMaster else ExternalClock)
      else ExternalClock)"

definition GetMasterClock :: "PlayerState \<Rightarrow> double \<Rightarrow> double" where
  "GetMasterClock state time =
     (case GetMasterSyncType state of
        VideoMaster \<Rightarrow> GetClock (serial_mem state) (v_clock (ps_video state)) time
      | AudioMaster \<Rightarrow> GetClock (serial_mem state) (a_clock (ps_audio state)) time
      | ExternalClock \<Rightarrow> GetClock (serial_mem state) (ps_externalClock state) time)"

definition UpdateExternalClockSpeed :: "PlayerState \<Rightarrow> double \<Rightarrow> double \<Rightarrow> PlayerState" where
  "UpdateExternalClockSpeed state t_get t_set =
     (let vcount = pq_packetCount (dec_packetsQueue (v_decoder (ps_video state)));
          acount = pq_packetCount (dec_packetsQueue (a_decoder (ps_audio state)));
          vvalid = ms_isValid (v_stream (ps_video state));
          avalid = ms_isValid (a_stream (ps_audio state));
          ext = ps_externalClock state
      in if (vvalid \<and> vcount \<le> EXTERNAL_CLOCK_MIN_FRAMES) \<or>
            (avalid \<and> acount \<le> EXTERNAL_CLOCK_MIN_FRAMES)
         then state\<lparr>ps_externalClock := SetClockSpeed (serial_mem state) ext
                (fplMax EXTERNAL_CLOCK_SPEED_MIN (dsub (clk_speed ext) EXTERNAL_CLOCK_SPEED_STEP))
                t_get t_set\<rparr>
         else if (\<not> vvalid \<or> EXTERNAL_CLOCK_MAX_FRAMES < vcount) \<and>
                 (\<not> avalid \<or> EXTERNAL_CLOCK_MAX_FRAMES < acount)
         then state\<lparr>ps_externalClock := SetClockSpeed (serial_mem state) ext
                (fplMin EXTERNAL_CLOCK_SPEED_MAX (dadd (clk_speed ext) EXTERNAL_CLOCK_SPEED_STEP))
                t_get t_set\<rparr>
         else (let speed = clk_speed ext
               in if dne speed (Dbl 1.0)
                  then state\<lparr>ps_externalClock := SetClockSpeed (serial_mem state) ext
                         (dadd speed
                            (ddiv (dmul EXTERNAL_CLOCK_SPEED_STEP (dsub (Dbl 1.0) speed))
                                  (fabs (dsub (Dbl 1.0) speed))))
                         t_get t_set\<rparr>
                  else state))"

text \<open>
  Calls of \<^verbatim>\<open>UpdateExternalClockSpeed\<close> one after the other. Between two calls the rest
  of the player moves on (packets are queued and consumed, clocks are set): each call
  comes with the player state \<open>e\<close> it finds, of which only the speed of the external
  clock is the one the previous call left, and with its two clock readings.
\<close>

definition with_speed_of :: "PlayerState \<Rightarrow> PlayerState \<Rightarrow> PlayerState" where
  "with_speed_of e state =
     e\<lparr>ps_externalClock := (ps_externalClock e)
         \<lparr>clk_speed := clk_speed (ps_externalClock state)\<rparr>\<rparr>"

fun UpdateExternalClockSpeed_run ::
  "PlayerState \<Rightarrow> (PlayerState \<times> double \<times> double) list \<Rightarrow> PlayerState" where
  "UpdateExternalClockSpeed_run state [] = state"
| "UpdateExternalClockSpeed_run state ((e, t_get, t_set) # ts) =
     UpdateExternalClockSpeed_run
       (UpdateExternalClockSpeed (with_speed_of e state) t_get t_set) ts"

section \<open>Video scheduling\<close>

definition GetFrameDuration :: "PlayerState \<Rightarrow> Frame \<Rightarrow> Frame \<Rightarrow> double" where
  "GetFrameDuration state cur next =
     (if fr_serial cur = fr_serial next then
        (let duration = dsub (fr_pts next) (fr_pts cur)
         in if isnan duration \<or> dle duration (Dbl 0) \<or> dgt duration (ps_maxFrameDuration state)
            then fr_duration cur
            else duration)
      else Dbl 0.0)"

text \<open>
  \<open>t_video\<close> and \<open>t_master\<close> are the clock readings of the two \<^verbatim>\<open>GetClock\<close> calls.
\<close>

definition ComputeVideoDelay :: "PlayerState \<Rightarrow> double \<Rightarrow> double \<Rightarrow> double \<Rightarrow> double" where
  "ComputeVideoDelay state t_video t_master delay =
     (if GetMasterSyncType state \<noteq> VideoMaster then
        (let videoClock = GetClock (serial_mem state) (v_clock (ps_video state)) t_video;
             masterClock = GetMasterClock state t_master;
             diff = dsub videoClock masterClock;
             syncThreshold = fplMax AV_SYNC_THRESHOLD_MIN (fplMin AV_SYNC_THRESHOLD_MAX delay)
         in if \<not> isnan diff \<and> dlt (fabs diff) (ps_maxFrameDuration state) then
              (if dle diff (dneg syncThreshold) then FFMAX (Dbl 0) (dadd delay diff)
               else if dge diff syncThreshold \<and> dgt delay AV_SYNC_FRAMEDUP_THRESHOLD
                 then dadd delay diff
               else if dge diff syncThreshold then dmul (Dbl 2) delay
               else delay)
            else delay)
      else delay)"

section \<open>Pause and seek\<close>

text \<open>
  \<^verbatim>\<open>AVERROR(ENOSYS)\<close>, with the \<^verbatim>\<open>ENOSYS\<close> of the program's platform (Win32: 40).
\<close>

definition AVERROR_ENOSYS :: int32 where
  "AVERROR_ENOSYS = - 40"

text \<open>
  \<open>tm 0\<close> to \<open>tm 4\<close> are the readings of \<^verbatim>\<open>av_gettime_relative\<close> (as seconds) at the five
  places of \<^verbatim>\<open>StreamTogglePause\<close> that ask for the time, in program order: the frame timer,
  \<^verbatim>\<open>GetClock\<close> and \<^verbatim>\<open>SetClock\<close> of the video clock, \<^verbatim>\<open>GetClock\<close> and \<^verbatim>\<open>SetClock\<close> of the
  external clock. The last block of \<^verbatim>\<open>StreamTogglePause\<close>, which stores \<^verbatim>\<open>pauseNumFrames\<close> and
  \<^verbatim>\<open>pauseClock\<close> for the on-screen display, writes fields that are not part of
  \<open>PlayerState\<close> here.
\<close>

definition StreamTogglePause :: "PlayerState \<Rightarrow> (nat \<Rightarrow> double) \<Rightarrow> PlayerState" where
  "StreamTogglePause state tm =
     (let s1 = (if ps_isPaused state then
                  (let sa = state\<lparr>ps_frameTimer := dadd (ps_frameTimer state)
                              (dsub (tm 0) (clk_lastUpdated (v_clock (ps_video state))))\<rparr>;
                       sb = (if ps_readPauseReturn sa \<noteq> AVERROR_ENOSYS
                             then sa\<lparr>ps_video := (ps_video sa)
                                    \<lparr>v_clock := (v_clock (ps_video sa))\<lparr>clk_isPaused := False\<rparr>\<rparr>\<rparr>
                             else sa);
                       vc = v_clock (ps_video sb)
                   in sb\<lparr>ps_video := (ps_video sb)
                          \<lparr>v_clock := SetClock vc (GetClock (serial_mem sb) vc (tm 1))
                                       (clk_serial vc) (tm 2)\<rparr>\<rparr>)
                else state);
          ext = ps_externalClock s1;
          s2 = s1\<lparr>ps_externalClock :=
                    SetClock ext (GetClock (serial_mem s1) ext (tm 3)) (clk_serial ext) (tm 4)\<rparr>;
          paused = (\<not> ps_isPaused s2)
      in s2\<lparr>ps_externalClock := (ps_externalClock s2)\<lparr>clk_isPaused := paused\<rparr>,
            ps_video := (ps_video s2)\<lparr>v_clock := (v_clock (ps_video s2))\<lparr>clk_isPaused := paused\<rparr>\<rparr>,
            ps_audio := (ps_audio s2)\<lparr>a_clock := (a_clock (ps_audio s2))\<lparr>clk_isPaused := paused\<rparr>\<rparr>,
            ps_isPaused := paused\<rparr>)"

definition StepToNextFrame :: "PlayerState \<Rightarrow> (nat \<Rightarrow> double) \<Rightarrow> PlayerState" where
  "StepToNextFrame state tm =
     (let s = (if ps_isPaused state then StreamTogglePause state tm else state)
      in s\<lparr>ps_step := 1\<rparr>)"

definition INT64_MIN :: int64 where
  "INT64_MIN = 0x8000000000000000"

definition INT64_MAX :: int64 where
  "INT64_MAX = 0x7FFFFFFFFFFFFFFF"

text \<open>
  The seek block of \<^verbatim>\<open>PacketReadThreadProc\<close>. \<open>avformat_seek_file\<close> stands for the call of
  FFmpeg's function on the format context, as a function of the four arguments the
  block computes. \<open>seek_result\<close> is what that call returns.
\<close>

definition seek_result ::
  "(int64 \<Rightarrow> int64 \<Rightarrow> int64 \<Rightarrow> int32 \<Rightarrow> int32) \<Rightarrow> PlayerState \<Rightarrow> int32" where
  "seek_result avformat_seek_file state =
     (let seekTarget = sk_pos (ps_seek state);
          rel = sk_rel (ps_seek state);
          seekMin = (if 0 <s rel then seekTarget - rel + 2 else INT64_MIN);
          seekMax = (if rel <s 0 then seekTarget - rel - 2 else INT64_MAX);
          seekFlags = (if rel <s 0 then sk_seekFlags (ps_seek state) OR AVSEEK_FLAG_BACKWARD
                       else sk_seekFlags (ps_seek state))
      in avformat_seek_file seekMin seekTarget seekMax seekFlags)"

text \<open>What the successful branch does to one decoder.\<close>

definition seek_flush_decoder :: "uint64 \<Rightarrow> bool \<Rightarrow> Decoder \<Rightarrow> Decoder" where
  "seek_flush_decoder node_size alloc_ok decoder =
     decoder\<lparr>dec_packetsQueue :=
                snd (PushFlushPacket node_size alloc_ok (FlushPacketQueue (dec_packetsQueue decoder))),
             dec_isEOF := False, dec_resumeSignal := True\<rparr>"

definition reader_seek ::
  "(int64 \<Rightarrow> int64 \<Rightarrow> int64 \<Rightarrow> int32 \<Rightarrow> int32) \<Rightarrow> uint64 \<Rightarrow> bool \<Rightarrow> bool \<Rightarrow>
   (nat \<Rightarrow> double) \<Rightarrow> PlayerState \<Rightarrow> PlayerState" where
  "reader_seek avformat_seek_file node_size alloc_a alloc_v tm state =
     (if sk_isRequired (ps_seek state) then
        (let seekTarget = sk_pos (ps_seek state);
             seekResult = seek_result avformat_seek_file state;
             s1 = (if seekResult <s 0 then state
                   else
                     (let sa = (if ms_isValid (a_stream (ps_audio state))
                                then state\<lparr>ps_audio := (ps_audio state)\<lparr>a_decoder :=
                                       seek_flush_decoder node_size alloc_a (a_decoder (ps_audio state))\<rparr>\<rparr>
                                else state);
                          sv = (if ms_isValid (v_stream (ps_video sa))
                                then sa\<lparr>ps_video := (ps_video sa)\<lparr>v_decoder :=
                                       seek_flush_decoder node_size alloc_v (v_decoder (ps_video sa))\<rparr>\<rparr>
                                else sa)
                      in if sk_seekFlags (ps_seek sv) AND AVSEEK_FLAG_BYTE \<noteq> 0
                         then sv\<lparr>ps_externalClock := SetClock (ps_externalClock sv) NaN 0 (tm 0)\<rparr>
                         else sv\<lparr>ps_externalClock := SetClock (ps_externalClock sv)
                                   (Dbl (real_of_int (sint seekTarget) / AV_TIME_BASE)) 0 (tm 0)\<rparr>));
             s2 = s1\<lparr>ps_seek := (ps_seek s1)\<lparr>sk_isRequired := False\<rparr>,
                     ps_reader := (ps_reader s1)\<lparr>rd_isEOF := False\<rparr>\<rparr>
         in if ps_isPaused s2 then StepToNextFrame s2 (\<lambda>i. tm (Suc i)) else s2)
      else state)"

section \<open>The zero-initialised player\<close>

text \<open>\<^verbatim>\<open>PlayerState state = {}\<close>, with the enum's first value as sync type.\<close>

definition zero_PacketQueue :: PacketQueue where
  "zero_PacketQueue = \<lparr>pq_packets = [], pq_size = 0, pq_duration = 0, pq_packetCount = 0,
     pq_serial = 0, pq_addedSignal = False, pq_freeSignal = False\<rparr>"

definition zero_MediaStream :: MediaStream where
  "zero_MediaStream = \<lparr>ms_stream = \<lparr>st_disposition = 0,
       st_time_base = \<lparr>q_num = 0, q_den = 0\<rparr>\<rparr>,
     ms_streamIndex = 0, ms_isValid = False\<rparr>"

definition zero_Decoder :: Decoder where
  "zero_Decoder = \<lparr>dec_packetsQueue = zero_PacketQueue, dec_frameQueue = zero_FrameQueue,
     dec_resumeSignal = False, dec_isEOF = False, dec_pktSerial = 0, dec_finishedSerial = 0\<rparr>"

definition zero_PlayerState :: PlayerState where
  "zero_PlayerState = \<lparr>
     ps_reader = \<lparr>rd_resumeSignal = False, rd_stopRequest = False, rd_isEOF = False\<rparr>,
     ps_video = \<lparr>v_stream = zero_MediaStream, v_decoder = zero_Decoder, v_clock = zero_Clock\<rparr>,
     ps_audio = \<lparr>a_stream = zero_MediaStream, a_decoder = zero_Decoder, a_clock = zero_Clock\<rparr>,
     ps_externalClock = zero_Clock,
     ps_seek = \<lparr>sk_pos = 0, sk_rel = 0, sk_seekFlags = 0, sk_isRequired = False\<rparr>,
     ps_frameTimer = Dbl 0, ps_maxFrameDuration = Dbl 0, ps_syncType = AudioMaster,
     ps_readPauseReturn = 0, ps_step = 0, ps_isInfiniteBuffer = False, ps_isRealTime = False,
     ps_isPaused = False, ps_lastPaused = False\<rparr>"

text \<open>
  The three \<^verbatim>\<open>InitClock\<close> calls at the end of \<^verbatim>\<open>LoadMedia\<close>, with their clock readings.
\<close>

definition init_clocks :: "PlayerState \<Rightarrow> double \<Rightarrow> double \<Rightarrow> double \<Rightarrow> PlayerState" where
  "init_clocks state t1 t2 t3 =
     state\<lparr>ps_video := (ps_video state)
              \<lparr>v_clock := InitClock (v_clock (ps_video state)) VideoQueueSerial t1\<rparr>,
           ps_audio := (ps_audio state)
              \<lparr>a_clock := InitClock (a_clock (ps_audio state)) AudioQueueSerial t2\<rparr>,
           ps_externalClock := InitClock (ps_externalClock state) ExternalClockSerial t3\<rparr>"

section \<open>Statements of the specification and auxiliary predicates\<close>

text \<open>
  The specification's \<open>compute_video_delay\<close>, written from its words: \<open>clamp\<close> and
  \<open>max(0, _)\<close> act on numbers and pass NaN through.
\<close>

fun clamp :: "double \<Rightarrow> real \<Rightarrow> real \<Rightarrow> double" where
  "clamp (Dbl x) lo hi = Dbl (max lo (min hi x))"
| "clamp NaN lo hi = NaN"

fun max0 :: "double \<Rightarrow> double" where
  "max0 (Dbl x) = Dbl (max 0 x)"
| "max0 NaN = NaN"

definition compute_video_delay ::
  "bool \<Rightarrow> double \<Rightarrow> double \<Rightarrow> double \<Rightarrow> double" where
  "compute_video_delay master_is_video diff maxFrameDuration last_duration =
     (if master_is_video then last_duration
      else (let threshold = clamp last_duration 0.04 0.1
            in if \<not> isnan diff \<and> dlt (fabs diff) maxFrameDuration then
                 (if dle diff (dneg threshold) then max0 (dadd last_duration diff)
                  else if dge diff threshold \<and> dgt last_duration (Dbl 0.1)
                    then dadd last_duration diff
                  else if dge diff threshold \<and> dle last_duration (Dbl 0.1)
                    then dmul (Dbl 2) last_duration
                  else last_duration)
               else last_duration))"

text \<open>A valid gap between two frames: a number, positive, at most the maximum.\<close>

definition valid_gap :: "double \<Rightarrow> double \<Rightarrow> bool" where
  "valid_gap gap maxFrameDuration =
     (\<not> isnan gap \<and> dgt gap (Dbl 0) \<and> dle gap maxFrameDuration)"

text \<open>
  The queued duration of a stream in seconds, and the two readings of "enough packets":
  \<open>enough_packets_spec\<close> as the specification words it (at least 25 packets and at
  least one second), \<open>enough_packets_code\<close> as \<^verbatim>\<open>StreamHasEnoughPackets\<close> computes it.
  \<open>backpressure_spec\<close> is the specification's condition for the reader to sleep.
\<close>

definition queued_seconds :: "AVStream \<Rightarrow> PacketQueue \<Rightarrow> real" where
  "queued_seconds stream queue =
     real_of_int (sint (q_num (st_time_base stream))) /
     real_of_int (sint (q_den (st_time_base stream))) * real (unat (pq_duration queue))"

definition enough_packets_spec :: "AVStream \<Rightarrow> int32 \<Rightarrow> PacketQueue \<Rightarrow> bool" where
  "enough_packets_spec stream streamIndex queue =
     (sint streamIndex < 0 \<or>
      st_disposition stream AND AV_DISPOSITION_ATTACHED_PIC \<noteq> 0 \<or>
      (25 \<le> unat (pq_packetCount queue) \<and> 1 \<le> queued_seconds stream queue))"

definition backpressure_spec :: "PlayerState \<Rightarrow> bool" where
  "backpressure_spec state =
     (16 * 1024 * 1024 <
        unat (pq_size (dec_packetsQueue (a_decoder (ps_audio state)))) +
        unat (pq_size (dec_packetsQueue (v_decoder (ps_video state)))) \<or>
      (enough_packets_spec (ms_stream (a_stream (ps_audio state)))
         (ms_streamIndex (a_stream (ps_audio state)))
         (dec_packetsQueue (a_decoder (ps_audio state))) \<and>
       enough_packets_spec (ms_stream (v_stream (ps_video state)))
         (ms_streamIndex (v_stream (ps_video state)))
         (dec_packetsQueue (v_decoder (ps_video state)))))"

definition enough_packets_code :: "AVStream \<Rightarrow> int32 \<Rightarrow> PacketQueue \<Rightarrow> bool" where
  "enough_packets_code stream streamIndex queue =
     (sint streamIndex < 0 \<or>
      st_disposition stream AND AV_DISPOSITION_ATTACHED_PIC \<noteq> 0 \<or>
      (25 < unat (pq_packetCount queue) \<and>
       (pq_duration queue = 0 \<or> 1 < queued_seconds stream queue)))"

text \<open>
  The conditions of \<^verbatim>\<open>UpdateExternalClockSpeed\<close> on the packet counts: \<open>queue_low\<close> and
  \<open>queues_high\<close> as the code tests them, \<open>queue_low_spec\<close> as the specification words
  the first one (no mention of the stream being valid). \<open>speed_in_range\<close> says that the
  external clock's speed is a number in \<open>[0.900, 1.010]\<close>.
\<close>

definition queue_low :: "PlayerState \<Rightarrow> bool" where
  "queue_low state =
     ((ms_isValid (v_stream (ps_video state)) \<and>
       unat (pq_packetCount (dec_packetsQueue (v_decoder (ps_video state)))) \<le> 2) \<or>
      (ms_isValid (a_stream (ps_audio state)) \<and>
       unat (pq_packetCount (dec_packetsQueue (a_decoder (ps_audio state)))) \<le> 2))"

definition queues_high :: "PlayerState \<Rightarrow> bool" where
  "queues_high state =
     ((\<not> ms_isValid (v_stream (ps_video state)) \<or>
       10 < unat (pq_packetCount (dec_packetsQueue (v_decoder (ps_video state))))) \<and>
      (\<not> ms_isValid (a_stream (ps_audio state)) \<or>
       10 < unat (pq_packetCount (dec_packetsQueue (a_decoder (ps_audio state))))))"

definition queue_low_spec :: "PlayerState \<Rightarrow> bool" where
  "queue_low_spec state =
     (unat (pq_packetCount (dec_packetsQueue (v_decoder (ps_video state)))) \<le> 2 \<or>
      unat (pq_packetCount (dec_packetsQueue (a_decoder (ps_audio state)))) \<le> 2)"

definition speed_in_range :: "PlayerState \<Rightarrow> bool" where
  "speed_in_range state =
     (case clk_speed (ps_externalClock state) of
        NaN \<Rightarrow> False
      | Dbl s \<Rightarrow> 0.900 \<le> s \<and> s \<le> 1.010)"

text \<open>
  The invariant of a run on a frame queue that the induction needs: the ring invariant,
  the bound on the capacity, and what a pending peek has established.
\<close>

definition fq_run_invariant :: "fq_run \<Rightarrow> bool" where
  "fq_run_invariant r =
     (let q = fr_queue r
      in 0 \<le> sint (fq_capacity q) \<and> sint (fq_capacity q) \<le> 8 \<and>
         0 \<le> sint (fq_count q) \<and> sint (fq_count q) \<le> sint (fq_capacity q) \<and>
         (fq_readIndexShown q = 0 \<or> fq_readIndexShown q = 1) \<and>
         sint (fq_readIndexShown q) \<le> sint (fq_count q) \<and>
         (fr_may_write r \<longrightarrow> sint (fq_count q) < sint (fq_capacity q)) \<and>
         (fr_may_read r \<longrightarrow> sint (fq_readIndexShown q) < sint (fq_count q)))"

section \<open>Concrete player states\<close>

text \<open>The player right after \<^verbatim>\<open>LoadMedia\<close> has initialised its three clocks.\<close>

definition player_after_init :: PlayerState where
  "player_after_init = init_clocks zero_PlayerState (Dbl 0) (Dbl 0) (Dbl 0)"

text \<open>The player after a successful byte-based seek, enacted by the reader.\<close>

definition player_after_byte_seek :: PlayerState where
  "player_after_byte_seek =
     reader_seek (\<lambda>mn target mx flags. 0) 104 True True (\<lambda>i. Dbl 2)
       (player_after_init\<lparr>ps_seek := \<lparr>sk_pos = 4096, sk_rel = 0,
          sk_seekFlags = AVSEEK_FLAG_ANY OR AVSEEK_FLAG_BYTE, sk_isRequired = True\<rparr>\<rparr>)"

text \<open>
  A player whose audio clock was set at serial 1, whose audio packet queue has since
  moved to serial 2, and whose external clock was reset by a byte-based seek.
\<close>

definition player_after_seek :: PlayerState where
  "player_after_seek =
     (let s = init_clocks zero_PlayerState (Dbl 0) (Dbl 0) (Dbl 0);
          a = ps_audio s
      in s\<lparr>ps_audio := a\<lparr>a_clock := SetClockAt (a_clock a) (Dbl 3) 1 (Dbl 3),
                a_decoder := (a_decoder a)\<lparr>dec_packetsQueue :=
                   (dec_packetsQueue (a_decoder a))\<lparr>pq_serial := 2\<rparr>\<rparr>\<rparr>,
           ps_externalClock := SetClock (ps_externalClock s) NaN 0 (Dbl 4)\<rparr>)"

text \<open>A player at end of file with a seek of five seconds forward requested.\<close>

definition player_at_eof_seeking :: PlayerState where
  "player_at_eof_seeking =
     zero_PlayerState\<lparr>
       ps_seek := \<lparr>sk_pos = 5000000, sk_rel = 5000000, sk_seekFlags = AVSEEK_FLAG_ANY,
                   sk_isRequired = True\<rparr>,
       ps_reader := \<lparr>rd_resumeSignal = True, rd_stopRequest = False, rd_isEOF = True\<rparr>\<rparr>"

text \<open>
  A player with two valid streams (time base 1/1000), each queue holding exactly 25
  packets of two seconds in all and 3000 bytes.
\<close>

definition stream_25_packets :: "int32 \<Rightarrow> MediaStream" where
  "stream_25_packets i = \<lparr>ms_stream = \<lparr>st_disposition = 0,
       st_time_base = \<lparr>q_num = 1, q_den = 1000\<rparr>\<rparr>, ms_streamIndex = i, ms_isValid = True\<rparr>"

definition queue_25_packets :: PacketQueue where
  "queue_25_packets = zero_PacketQueue\<lparr>pq_size := 3000, pq_duration := 2000,
     pq_packetCount := 25, pq_serial := 1\<rparr>"

definition player_25_packets :: PlayerState where
  "player_25_packets =
     zero_PlayerState\<lparr>
       ps_video := \<lparr>v_stream = stream_25_packets 0,
                    v_decoder = zero_Decoder\<lparr>dec_packetsQueue := queue_25_packets\<rparr>,
                    v_clock = zero_Clock\<rparr>,
       ps_audio := \<lparr>a_stream = stream_25_packets 1,
                    a_decoder = zero_Decoder\<lparr>dec_packetsQueue := queue_25_packets\<rparr>,
                    a_clock = zero_Clock\<rparr>\<rparr>"

text \<open>
  An audio-only player: no video stream (its packet queue stays empty), a valid audio
  stream with 11 queued packets, external clock at speed 1.0.
\<close>

definition player_audio_only :: PlayerState where
  "player_audio_only =
     (let s = init_clocks zero_PlayerState (Dbl 0) (Dbl 0) (Dbl 0)
      in s\<lparr>ps_audio := (ps_audio s)\<lparr>
             a_stream := zero_MediaStream\<lparr>ms_streamIndex := 0, ms_isValid := True\<rparr>,
             a_decoder := zero_Decoder\<lparr>dec_packetsQueue :=
                zero_PacketQueue\<lparr>pq_packetCount := 11, pq_serial := 1\<rparr>\<rparr>\<rparr>,
           ps_video := (ps_video s)\<lparr>
             v_stream := zero_MediaStream\<lparr>ms_streamIndex := - 1\<rparr>\<rparr>,
           ps_syncType := ExternalClock, ps_isRealTime := True\<rparr>)"

text \<open>
  A paused player with audio as master: the video clock stands at 1.0 s, the audio clock
  at 1.2 s.
\<close>

definition player_video_early :: PlayerState where
  "player_video_early =
     zero_PlayerState\<lparr>
       ps_video := \<lparr>v_stream = zero_MediaStream\<lparr>ms_isValid := True\<rparr>,
                    v_decoder = zero_Decoder,
                    v_clock = zero_Clock\<lparr>clk_pts := Dbl 1.0, clk_isPaused := True,
                                clk_queueSerial := VideoQueueSerial\<rparr>\<rparr>,
       ps_audio := \<lparr>a_stream = zero_MediaStream\<lparr>ms_isValid := True\<rparr>,
                    a_decoder = zero_Decoder,
                    a_clock = zero_Clock\<lparr>clk_pts := Dbl 1.2, clk_isPaused := True,
                                clk_queueSerial := AudioQueueSerial\<rparr>\<rparr>,
       ps_maxFrameDuration := Dbl 10, ps_isPaused := True\<rparr>"

text \<open>A data packet of 100 bytes and a sequence of queue operations.\<close>

definition data_packet :: PacketList where
  "data_packet = zero_PacketList\<lparr>pl_packet :=
     zero_AVPacket\<lparr>pkt_data := Payload 1, pkt_size := 100, pkt_duration := 40\<rparr>\<rparr>"

definition sample_ops :: "pq_op list" where
  "sample_ops = [OpPushFlushPacket True, OpPushPacket data_packet, OpPushNullPacket True 0,
     OpPopPacket, OpFlushPacketQueue, OpPushFlushPacket True]"

text \<open>Two rounds of writing a frame and reading it, on a queue of capacity 4.\<close>

definition sample_frame_ops :: "fq_op list" where
  "sample_frame_ops =
     [OpPeekWritable False False, OpNextWritable, OpPeekReadable False False, OpNextReadable,
      OpPeekWritable False False, OpNextWritable, OpPeekReadable False False, OpNextReadable]"

section \<open>Auxiliary lemmas\<close>

subsection \<open>Doubles\<close>

lemma isnan_dadd [simp]: "isnan (dadd a b) \<longleftrightarrow> isnan a \<or> isnan b"
  by (cases a; cases b) simp_all

lemma isnan_dsub [simp]: "isnan (dsub a b) \<longleftrightarrow> isnan a \<or> isnan b"
  by (cases a; cases b) simp_all

lemma isnan_dmul [simp]: "isnan (dmul a b) \<longleftrightarrow> isnan a \<or> isnan b"
  by (cases a; cases b) simp_all

lemma threshold_clamp:
  "fplMax AV_SYNC_THRESHOLD_MIN (fplMin AV_SYNC_THRESHOLD_MAX delay) = clamp delay 0.04 0.1"
  by (cases delay)
     (auto simp: fplMax_def fplMin_def dgt_def AV_SYNC_THRESHOLD_MIN_def AV_SYNC_THRESHOLD_MAX_def)

lemma FFMAX_max0: "FFMAX (Dbl 0) x = max0 x"
  by (cases x) (auto simp: FFMAX_def dgt_def)

lemma compute_video_delay_numbers:
  assumes "\<bar>d\<bar> < m"
  shows "compute_video_delay False (Dbl d) (Dbl m) (Dbl l) =
      Dbl (if d \<le> - max 0.04 (min 0.1 l) then max 0 (l + d)
           else if max 0.04 (min 0.1 l) \<le> d \<and> 0.1 < l then l + d
           else if max 0.04 (min 0.1 l) \<le> d then 2 * l
           else l)"
proof -
  define thr where "thr = max 0.04 (min 0.1 l)"
  have c: "clamp (Dbl l) 0.04 0.1 = Dbl thr"
    by (simp only: clamp.simps thr_def)
  have "compute_video_delay False (Dbl d) (Dbl m) (Dbl l) =
      Dbl (if d \<le> - thr then max 0 (l + d)
           else if thr \<le> d \<and> 0.1 < l then l + d
           else if thr \<le> d then 2 * l
           else l)"
    unfolding compute_video_delay_def c Let_def dge_def dgt_def
    using assms by (simp only: dle.simps dlt.simps dneg.simps dadd.simps dmul.simps max0.simps
        fabs.simps isnan.simps if_False if_True not_False_eq_True simp_thms) auto
  then show ?thesis unfolding thr_def .
qed

subsection \<open>Signed reading of small words\<close>

lemma sint_succ:
  fixes a :: int32
  assumes "sint a < 2147483647"
  shows "sint (a + 1) = sint a + 1"
proof -
  have lo: "- (2 ^ 31) \<le> sint a"
    using sint_ge [of a] by simp
  have "sint (a + 1) = signed_take_bit 31 (sint a + 1)"
    by (simp add: sint_word_add)
  also have "\<dots> = sint a + 1"
    using lo assms by (intro signed_take_bit_int_eq_self) simp_all
  finally show ?thesis .
qed

lemma sint_diff_small:
  fixes a b :: int32
  assumes "0 \<le> sint a" "sint a \<le> 8" "0 \<le> sint b" "sint b \<le> 8"
  shows "sint (a - b) = sint a - sint b"
proof -
  have "sint (a - b) = signed_take_bit 31 (sint a - sint b)"
    by (simp add: sint_word_ariths)
  also have "\<dots> = sint a - sint b"
    using assms by (intro signed_take_bit_int_eq_self) simp_all
  finally show ?thesis .
qed

lemma sint_capacity_clamped:
  fixes capacity :: int32
  shows "0 \<le> sint (if capacity < 8 then capacity else 8) \<and>
         sint (if capacity < 8 then capacity else 8) \<le> 8"
proof (cases "capacity < 8")
  case True
  then have u: "uint capacity < 8" by (simp add: word_less_def)
  have "sint capacity = signed_take_bit 31 (uint capacity)"
    by (simp add: sint_uint)
  also have "\<dots> = uint capacity"
  proof (rule signed_take_bit_int_eq_self)
    show "- (2 ^ 31) \<le> uint capacity"
      by (rule order_trans [of _ 0]) simp_all
    from u show "uint capacity < 2 ^ 31" by simp
  qed
  finally have "sint capacity = uint capacity" .
  with u show ?thesis using True by simp
next
  case False
  then show ?thesis by simp
qed

subsection \<open>The serial of a packet queue along a run\<close>

lemma pq_serial_apply:
  "pq_serial (pq_apply node_size q x) = (if pushes_flush x then pq_serial q + 1 else pq_serial q)"
  by (cases x)
     (simp_all add: PushPacket_def PopPacket_def PushNullPacket_def PushFlushPacket_def
        FlushPacketQueue_def IsFlushPacket_def Let_def globalFlushPacket_def zero_PacketList_def
        split: list.splits)

lemma flush_pushes_Cons:
  "flush_pushes (x # xs) = (if pushes_flush x then Suc (flush_pushes xs) else flush_pushes xs)"
  by (simp add: flush_pushes_def)

lemma pq_serial_run:
  "pq_serial (pq_run node_size q ops) = pq_serial q + of_nat (flush_pushes ops)"
  by (induction ops arbitrary: q) (simp_all add: pq_serial_apply flush_pushes_Cons flush_pushes_def)

lemma pq_serial_run_sint:
  "sint (pq_serial q) + int (flush_pushes ops) \<le> INT32_MAX \<Longrightarrow>
   sint (pq_serial (pq_run node_size q ops)) = sint (pq_serial q) + int (flush_pushes ops)"
proof (induction ops arbitrary: q)
  case Nil
  then show ?case by (simp add: flush_pushes_def)
next
  case (Cons x xs)
  show ?case
  proof (cases "pushes_flush x")
    case True
    with Cons.prems have small: "sint (pq_serial q) < 2147483647"
      by (simp add: flush_pushes_Cons INT32_MAX_def)
    have step: "sint (pq_serial (pq_apply node_size q x)) = sint (pq_serial q) + 1"
      using True small by (simp add: pq_serial_apply sint_succ)
    with Cons.prems True
    have "sint (pq_serial (pq_apply node_size q x)) + int (flush_pushes xs) \<le> INT32_MAX"
      by (simp add: flush_pushes_Cons)
    from Cons.IH [OF this] step True show ?thesis
      by (simp add: flush_pushes_Cons)
  next
    case False
    then have same: "pq_serial (pq_apply node_size q x) = pq_serial q"
      by (simp add: pq_serial_apply)
    with Cons.prems False
    have "sint (pq_serial (pq_apply node_size q x)) + int (flush_pushes xs) \<le> INT32_MAX"
      by (simp add: flush_pushes_Cons)
    from Cons.IH [OF this] same False show ?thesis
      by (simp add: flush_pushes_Cons)
  qed
qed

subsection \<open>The frame queue along a run\<close>

lemma fq_start_invariant: "fq_run_invariant (fq_start capacity keepLast)"
  using sint_capacity_clamped [of capacity]
  by (auto simp: fq_run_invariant_def fq_start_def InitFrameQueue_def zero_FrameQueue_def
      MAX_FRAME_QUEUE_COUNT_def Let_def split: if_splits)

lemma fq_step_invariant:
  assumes "fq_run_invariant r" and "fq_step r x = Some r'"
  shows "fq_run_invariant r'"
proof (cases x)
  case (OpPeekWritable s1 s2)
  with assms show ?thesis
    by (auto simp: fq_run_invariant_def Let_def PeekWritableFromFrameQueue_def word_sle_eq
        split: if_splits)
next
  case OpNextWritable
  with assms have w: "fr_may_write r"
    and r': "r' = r\<lparr>fr_queue := NextWritable (fr_queue r), fr_may_write := False\<rparr>"
    by (auto split: if_splits)
  from assms(1) w have "sint (fq_count (fr_queue r)) < 2147483647"
    by (simp add: fq_run_invariant_def Let_def)
  then have "sint (fq_count (fr_queue r) + 1) = sint (fq_count (fr_queue r)) + 1"
    by (rule sint_succ)
  with assms(1) w show ?thesis
    by (auto simp: r' fq_run_invariant_def Let_def NextWritable_def)
next
  case (OpPeekReadable s1 s2)
  have "sint (fq_count (fr_queue r) - fq_readIndexShown (fr_queue r)) =
        sint (fq_count (fr_queue r)) - sint (fq_readIndexShown (fr_queue r))"
    using assms(1) by (intro sint_diff_small) (auto simp: fq_run_invariant_def Let_def)
  with assms OpPeekReadable show ?thesis
    by (auto simp: fq_run_invariant_def Let_def PeekReadableFromFrameQueue_def word_sle_eq
        split: if_splits)
next
  case OpNextReadable
  with assms have rd: "fr_may_read r"
    and r': "r' = r\<lparr>fr_queue := NextReadable (fr_queue r), fr_may_read := False\<rparr>"
    by (auto split: if_splits)
  have "sint (fq_count (fr_queue r) - 1) = sint (fq_count (fr_queue r)) - sint (1 :: int32)"
    using assms(1) by (intro sint_diff_small) (auto simp: fq_run_invariant_def Let_def)
  then have dec: "sint (fq_count (fr_queue r) - 1) = sint (fq_count (fr_queue r)) - 1"
    by simp
  from assms(1) rd show ?thesis
    by (auto simp: r' fq_run_invariant_def Let_def NextReadable_def dec)
qed

lemma fq_steps_invariant:
  "fq_run_invariant r \<Longrightarrow> fq_steps r ops = Some r' \<Longrightarrow> fq_run_invariant r'"
proof (induction ops arbitrary: r)
  case Nil
  then show ?case by simp
next
  case (Cons x xs)
  from Cons.prems(2) obtain r1 where s: "fq_step r x = Some r1" and t: "fq_steps r1 xs = Some r'"
    by (auto split: option.splits)
  from Cons.prems(1) s have "fq_run_invariant r1" by (rule fq_step_invariant)
  from Cons.IH [OF this t] show ?case .
qed

lemma fq_run_invariant_queue:
  assumes "fq_run_invariant r"
  shows "fq_invariant (fr_queue r)"
proof -
  have "sint (fq_count (fr_queue r) - fq_readIndexShown (fr_queue r)) =
        sint (fq_count (fr_queue r)) - sint (fq_readIndexShown (fr_queue r))"
    using assms by (intro sint_diff_small) (auto simp: fq_run_invariant_def Let_def)
  with assms show ?thesis
    by (auto simp: fq_run_invariant_def fq_invariant_def Let_def GetFrameQueueRemainingCount_def)
qed

subsection \<open>Enough packets\<close>

lemma StreamHasEnoughPackets_code:
  "q_den (st_time_base stream) \<noteq> 0 \<Longrightarrow>
   StreamHasEnoughPackets stream streamIndex queue = enough_packets_code stream streamIndex queue"
  by (simp add: StreamHasEnoughPackets_def enough_packets_code_def queued_seconds_def av_q2d_def
      dgt_def MIN_PACKET_FRAMES_def word_sless_alt word_less_nat_alt)

subsection \<open>The speed of the external clock\<close>

lemma clk_speed_SetClockSpeed [simp]:
  "clk_speed (SetClockSpeed mem clock speed t_get t_set) = speed"
  by (simp add: SetClockSpeed_def)

lemma nudge_real:
  fixes s :: real
  assumes "s \<noteq> 1"
  shows "0.001 * (1 - s) / \<bar>1 - s\<bar> = (if s < 1 then 0.001 else - 0.001)"
proof (cases "s < 1")
  case True
  then have "\<bar>1 - s\<bar> = 1 - s" "1 - s \<noteq> 0" by simp_all
  with True show ?thesis by simp
next
  case False
  with assms have "\<bar>1 - s\<bar> = - (1 - s)" "1 - s \<noteq> 0" by simp_all
  with False show ?thesis by (simp del: minus_diff_eq)
qed

lemma nudge_double:
  assumes "s \<noteq> 1"
  shows "dadd (Dbl s) (ddiv (dmul (Dbl 0.001) (dsub (Dbl 1) (Dbl s))) (fabs (dsub (Dbl 1) (Dbl s))))
       = Dbl (s + 0.001 * (1 - s) / \<bar>1 - s\<bar>)"
  using assms by simp

lemma speed_low:
  "queue_low state \<Longrightarrow>
   clk_speed (ps_externalClock (UpdateExternalClockSpeed state t_get t_set)) =
     fplMax (Dbl 0.900) (dsub (clk_speed (ps_externalClock state)) (Dbl 0.001))"
  unfolding UpdateExternalClockSpeed_def queue_low_def Let_def EXTERNAL_CLOCK_SPEED_MIN_def
    EXTERNAL_CLOCK_SPEED_STEP_def EXTERNAL_CLOCK_MIN_FRAMES_def word_le_nat_alt
  by auto

lemma speed_high:
  "\<not> queue_low state \<Longrightarrow> queues_high state \<Longrightarrow>
   clk_speed (ps_externalClock (UpdateExternalClockSpeed state t_get t_set)) =
     fplMin (Dbl 1.010) (dadd (clk_speed (ps_externalClock state)) (Dbl 0.001))"
  unfolding UpdateExternalClockSpeed_def queue_low_def queues_high_def Let_def
    EXTERNAL_CLOCK_SPEED_MAX_def EXTERNAL_CLOCK_SPEED_STEP_def EXTERNAL_CLOCK_MIN_FRAMES_def
    EXTERNAL_CLOCK_MAX_FRAMES_def word_le_nat_alt word_less_nat_alt
  by auto

lemma speed_rest:
  "\<not> queue_low state \<Longrightarrow> \<not> queues_high state \<Longrightarrow>
   UpdateExternalClockSpeed state t_get t_set =
     (if dne (clk_speed (ps_externalClock state)) (Dbl 1)
      then state\<lparr>ps_externalClock := SetClockSpeed (serial_mem state) (ps_externalClock state)
             (dadd (clk_speed (ps_externalClock state))
                (ddiv (dmul (Dbl 0.001) (dsub (Dbl 1) (clk_speed (ps_externalClock state))))
                      (fabs (dsub (Dbl 1) (clk_speed (ps_externalClock state))))))
             t_get t_set\<rparr>
      else state)"
  unfolding UpdateExternalClockSpeed_def queue_low_def queues_high_def Let_def
    EXTERNAL_CLOCK_SPEED_STEP_def EXTERNAL_CLOCK_MIN_FRAMES_def
    EXTERNAL_CLOCK_MAX_FRAMES_def word_le_nat_alt word_less_nat_alt
  by auto

lemma speed_nudge:
  assumes "\<not> queue_low state" "\<not> queues_high state"
    and "clk_speed (ps_externalClock state) = Dbl s" "s \<noteq> 1"
  shows "clk_speed (ps_externalClock (UpdateExternalClockSpeed state t_get t_set)) =
     Dbl (s + 0.001 * (1 - s) / \<bar>1 - s\<bar>)"
  unfolding speed_rest [OF assms(1,2)] assms(3) nudge_double [OF assms(4)]
  using assms(4) by simp

lemma speed_keep:
  assumes "\<not> queue_low state" "\<not> queues_high state"
    and "clk_speed (ps_externalClock state) = Dbl 1"
  shows "UpdateExternalClockSpeed state t_get t_set = state"
  unfolding speed_rest [OF assms(1,2)] assms(3) by simp

lemma speed_in_range_step:
  assumes "speed_in_range state"
  shows "speed_in_range (UpdateExternalClockSpeed state t_get t_set)"
proof -
  from assms obtain s where s: "clk_speed (ps_externalClock state) = Dbl s"
    and r: "0.900 \<le> s" "s \<le> 1.010"
    by (auto simp: speed_in_range_def split: double.splits)
  consider (low) "queue_low state" | (high) "\<not> queue_low state" "queues_high state"
    | (keep) "\<not> queue_low state" "\<not> queues_high state" "s = 1"
    | (nudge) "\<not> queue_low state" "\<not> queues_high state" "s \<noteq> 1"
    by blast
  then show ?thesis
  proof cases
    case low
    show ?thesis
      using r by (simp add: speed_in_range_def speed_low [OF low] s fplMax_def dgt_def)
  next
    case high
    show ?thesis
      using r by (simp add: speed_in_range_def speed_high [OF high] s fplMin_def)
  next
    case keep
    with s have "UpdateExternalClockSpeed state t_get t_set = state"
      by (simp add: speed_keep)
    with assms show ?thesis by simp
  next
    case nudge
    have "0.900 \<le> s + (if s < 1 then 0.001 else - 0.001)"
      and "s + (if s < 1 then 0.001 else - 0.001) \<le> 1.010"
      using r nudge(3) by auto
    then show ?thesis
      unfolding speed_in_range_def speed_nudge [OF nudge(1,2) s nudge(3)]
        nudge_real [OF nudge(3)]
      by simp
  qed
qed

lemma speed_in_range_with_speed_of:
  "speed_in_range (with_speed_of e state) = speed_in_range state"
  by (simp add: speed_in_range_def with_speed_of_def)

lemma speed_in_range_run:
  "speed_in_range state \<Longrightarrow> speed_in_range (UpdateExternalClockSpeed_run state ts)"
  by (induction state ts rule: UpdateExternalClockSpeed_run.induct)
     (simp_all add: speed_in_range_step speed_in_range_with_speed_of)

section \<open>Packet queue: the serial\<close>

text \<open>
  C1. Pushing a data or null packet tags it with the queue's current serial and leaves the
  serial unchanged; pushing a flush packet first increments the serial by one and tags the
  flush packet with the new serial; \<^verbatim>\<open>FlushPacketQueue\<close> removes every packet, resets size,
  duration and packet count to zero and leaves the serial unchanged. Hence every operation
  changes the serial exactly when it pushes a flush packet, and then by one; along every
  sequence of operations the serial grows by the number of flush packets pushed, so it
  never decreases. The serial is an \<^verbatim>\<open>int32_t\<close>: the growth is stated both for the
  32-bit value, for every sequence, and for its signed reading, for the sequences that
  keep it within \<open>INT32_MAX\<close>, where \<^verbatim>\<open>queue.serial++\<close> does not overflow.
\<close>

theorem PacketQueue_serial_discipline:
  "(\<not> IsFlushPacket p \<longrightarrow>
      pq_serial (PushPacket node_size q p) = pq_serial q \<and>
      pq_packets (PushPacket node_size q p) = pq_packets q @ [p\<lparr>pl_serial := pq_serial q\<rparr>]) \<and>
   (IsFlushPacket p \<longrightarrow>
      pq_serial (PushPacket node_size q p) = pq_serial q + 1 \<and>
      pq_packets (PushPacket node_size q p) = pq_packets q @ [p\<lparr>pl_serial := pq_serial q + 1\<rparr>]) \<and>
   FlushPacketQueue q =
     q\<lparr>pq_packets := [], pq_packetCount := 0, pq_size := 0, pq_duration := 0\<rparr> \<and>
   pq_serial (FlushPacketQueue q) = pq_serial q \<and>
   pq_serial (pq_apply node_size q x) = (if pushes_flush x then pq_serial q + 1 else pq_serial q) \<and>
   pq_serial (pq_run node_size q ops) = pq_serial q + of_nat (flush_pushes ops) \<and>
   (sint (pq_serial q) + int (flush_pushes ops) \<le> INT32_MAX \<longrightarrow>
      sint (pq_serial (pq_run node_size q ops)) = sint (pq_serial q) + int (flush_pushes ops) \<and>
      sint (pq_serial q) \<le> sint (pq_serial (pq_run node_size q ops)))"
  using pq_serial_run_sint [of q ops node_size] pq_serial_apply [of node_size q x]
    pq_serial_run [of node_size q ops]
  by (simp add: PushPacket_def FlushPacketQueue_def Let_def)

theorem PacketQueue_serial_discipline_witness:
  "pq_serial (PushPacket 104 (zero_PacketQueue\<lparr>pq_serial := 1\<rparr>) data_packet) = 1 \<and>
   pq_serial (PushPacket 104 zero_PacketQueue (zero_PacketList\<lparr>pl_packet := globalFlushPacket\<rparr>)) = 1 \<and>
   sint (pq_serial zero_PacketQueue) + int (flush_pushes sample_ops) \<le> INT32_MAX \<and>
   sint (pq_serial (pq_run 104 zero_PacketQueue sample_ops)) = 2"
  using
    PacketQueue_serial_discipline [where p = data_packet and node_size = 104
      and q = "zero_PacketQueue\<lparr>pq_serial := 1\<rparr>" and x = OpPopPacket and ops = "[]"]
    PacketQueue_serial_discipline [where p = "zero_PacketList\<lparr>pl_packet := globalFlushPacket\<rparr>"
      and node_size = 104 and q = zero_PacketQueue and x = OpPopPacket and ops = sample_ops]
  by (simp add: data_packet_def sample_ops_def flush_pushes_def INT32_MAX_def IsFlushPacket_def
      globalFlushPacket_def zero_PacketList_def zero_AVPacket_def zero_PacketQueue_def)

section \<open>Video delay\<close>

text \<open>
  C2. \<^verbatim>\<open>ComputeVideoDelay\<close> is the specification's \<open>compute_video_delay\<close>: it returns
  \<open>last_duration\<close> unchanged when the master clock is video; otherwise, with
  \<open>diff\<close> the video clock minus the master clock and \<open>threshold\<close> the clamp of
  \<open>last_duration\<close> to \<open>[0.04, 0.1]\<close>, whenever \<open>diff\<close> is not NaN and
  \<open>|diff| < maxFrameDuration\<close> it returns \<open>max(0, last_duration + diff)\<close> if
  \<open>diff \<le> - threshold\<close>, \<open>last_duration + diff\<close> if \<open>diff \<ge> threshold\<close> and
  \<open>last_duration > 0.1\<close>, \<open>2 * last_duration\<close> if \<open>diff \<ge> threshold\<close> and
  \<open>last_duration \<le> 0.1\<close>, and \<open>last_duration\<close> in every remaining case. The second
  part spells the result out for numbers.
\<close>

theorem ComputeVideoDelay_spec:
  "ComputeVideoDelay state t_video t_master delay =
     compute_video_delay (GetMasterSyncType state = VideoMaster)
       (dsub (GetClock (serial_mem state) (v_clock (ps_video state)) t_video)
             (GetMasterClock state t_master))
       (ps_maxFrameDuration state) delay \<and>
   (GetMasterSyncType state \<noteq> VideoMaster \<and>
    dsub (GetClock (serial_mem state) (v_clock (ps_video state)) t_video)
         (GetMasterClock state t_master) = Dbl d \<and>
    ps_maxFrameDuration state = Dbl m \<and> \<bar>d\<bar> < m \<and> delay = Dbl l \<longrightarrow>
    ComputeVideoDelay state t_video t_master delay =
      Dbl (if d \<le> - max 0.04 (min 0.1 l) then max 0 (l + d)
           else if max 0.04 (min 0.1 l) \<le> d \<and> 0.1 < l then l + d
           else if max 0.04 (min 0.1 l) \<le> d then 2 * l
           else l))"
proof -
  let ?diff = "dsub (GetClock (serial_mem state) (v_clock (ps_video state)) t_video)
             (GetMasterClock state t_master)"
  have dup: "dge ?diff (clamp delay 0.04 0.1) \<Longrightarrow> \<not> dgt delay (Dbl 0.1) \<Longrightarrow> dle delay (Dbl 0.1)"
    by (cases delay; cases ?diff) (auto simp: dge_def dgt_def)
  have spec: "ComputeVideoDelay state t_video t_master delay =
     compute_video_delay (GetMasterSyncType state = VideoMaster) ?diff
       (ps_maxFrameDuration state) delay"
    unfolding ComputeVideoDelay_def compute_video_delay_def threshold_clamp FFMAX_max0
      AV_SYNC_FRAMEDUP_THRESHOLD_def Let_def
    using dup by (auto simp: dgt_def)
  show ?thesis
  proof (intro conjI impI)
    show "ComputeVideoDelay state t_video t_master delay =
       compute_video_delay (GetMasterSyncType state = VideoMaster) ?diff
         (ps_maxFrameDuration state) delay"
      by (fact spec)
  next
    assume h: "GetMasterSyncType state \<noteq> VideoMaster \<and> ?diff = Dbl d \<and>
      ps_maxFrameDuration state = Dbl m \<and> \<bar>d\<bar> < m \<and> delay = Dbl l"
    then have g: "(GetMasterSyncType state = VideoMaster) = False"
      and b: "?diff = Dbl d" and c: "ps_maxFrameDuration state = Dbl m"
      and e: "\<bar>d\<bar> < m" and f: "delay = Dbl l"
      by simp_all
    have "ComputeVideoDelay state t_video t_master delay =
       compute_video_delay (GetMasterSyncType state = VideoMaster) ?diff
         (ps_maxFrameDuration state) delay"
      by (fact spec)
    also have "\<dots> = compute_video_delay False (Dbl d) (Dbl m) (Dbl l)"
      by (simp only: g b c f)
    also have "\<dots> =
      Dbl (if d \<le> - max 0.04 (min 0.1 l) then max 0 (l + d)
           else if max 0.04 (min 0.1 l) \<le> d \<and> 0.1 < l then l + d
           else if max 0.04 (min 0.1 l) \<le> d then 2 * l
           else l)"
      by (rule compute_video_delay_numbers [OF e])
    finally show "ComputeVideoDelay state t_video t_master delay =
      Dbl (if d \<le> - max 0.04 (min 0.1 l) then max 0 (l + d)
           else if max 0.04 (min 0.1 l) \<le> d \<and> 0.1 < l then l + d
           else if max 0.04 (min 0.1 l) \<le> d then 2 * l
           else l)" .
  qed
qed

theorem ComputeVideoDelay_spec_witness:
  "ComputeVideoDelay player_video_early (Dbl 7) (Dbl 7) (Dbl 0.04) = Dbl 0 \<and>
   ComputeVideoDelay player_video_early (Dbl 7) (Dbl 7) (Dbl 0.5) = Dbl 0.3"
  using ComputeVideoDelay_spec [where state = player_video_early and t_video = "Dbl 7"
      and t_master = "Dbl 7" and delay = "Dbl 0.04" and d = "- 0.2" and m = 10 and l = "0.04"]
    ComputeVideoDelay_spec [where state = player_video_early and t_video = "Dbl 7"
      and t_master = "Dbl 7" and delay = "Dbl 0.5" and d = "- 0.2" and m = 10 and l = "0.5"]
  by (simp add: compute_video_delay_def player_video_early_def GetMasterSyncType_def
      GetMasterClock_def GetClock_def zero_PlayerState_def zero_MediaStream_def zero_Decoder_def
      zero_PacketQueue_def zero_Clock_def)

section \<open>Reading a clock\<close>

text \<open>
  C3, as stated: \<^verbatim>\<open>GetClock\<close> returns NaN if and only if the referenced queue serial differs
  from the clock's serial, also for the external clock after initialisation and after a
  byte-based seek. This fails in both places: the external clock references its own
  serial, so the two serials are equal, and its reading is NaN, because \<^verbatim>\<open>InitClock\<close> and
  the byte-based seek both set its \<open>pts\<close> to NaN.
\<close>

theorem GetClock_NaN_iff_counterexample:
  "serial_mem player_after_init (clk_queueSerial (ps_externalClock player_after_init))
     = clk_serial (ps_externalClock player_after_init) \<and>
   isnan (GetClock (serial_mem player_after_init) (ps_externalClock player_after_init) (Dbl 1)) \<and>
   serial_mem player_after_byte_seek (clk_queueSerial (ps_externalClock player_after_byte_seek))
     = clk_serial (ps_externalClock player_after_byte_seek) \<and>
   isnan (GetClock (serial_mem player_after_byte_seek) (ps_externalClock player_after_byte_seek)
     (Dbl 3))"
  by (simp add: player_after_byte_seek_def reader_seek_def seek_result_def AVSEEK_FLAG_ANY_def
      AVSEEK_FLAG_BYTE_def player_after_init_def init_clocks_def InitClock_def SetClock_def
      SetClockAt_def GetClock_def zero_PlayerState_def zero_Clock_def zero_MediaStream_def
      Let_def word_sless_alt)

text \<open>
  C3, amended: \<^verbatim>\<open>GetClock\<close> returns NaN whenever the referenced queue serial differs from
  the clock's serial. When the two serials are equal, a paused clock reads its \<open>pts\<close>,
  NaN or not, and a running clock reads
  \<open>pts_drift + now - (now - last_updated) * (1 - speed)\<close>: on numbers that is the value
  of the formula, and it is NaN exactly when the drift anchor, the time of last update,
  the speed or the current time is NaN.
\<close>

theorem GetClock_NaN:
  "(mem (clk_queueSerial c) \<noteq> clk_serial c \<longrightarrow> GetClock mem c t = NaN) \<and>
   (mem (clk_queueSerial c) = clk_serial c \<and> clk_isPaused c \<longrightarrow> GetClock mem c t = clk_pts c) \<and>
   (mem (clk_queueSerial c) = clk_serial c \<and> \<not> clk_isPaused c \<longrightarrow>
      GetClock mem c t =
        dsub (dadd (clk_ptsDrift c) t)
             (dmul (dsub t (clk_lastUpdated c)) (dsub (Dbl 1) (clk_speed c))) \<and>
      (clk_ptsDrift c = Dbl drift \<and> t = Dbl now \<and> clk_lastUpdated c = Dbl updated \<and>
       clk_speed c = Dbl speed \<longrightarrow>
         GetClock mem c t = Dbl (drift + now - (now - updated) * (1 - speed))) \<and>
      (isnan (GetClock mem c t) \<longleftrightarrow>
         isnan (clk_ptsDrift c) \<or> isnan t \<or> isnan (clk_lastUpdated c) \<or> isnan (clk_speed c)))"
proof (intro conjI impI)
  assume "mem (clk_queueSerial c) \<noteq> clk_serial c"
  then show "GetClock mem c t = NaN"
    by (simp add: GetClock_def)
next
  assume "mem (clk_queueSerial c) = clk_serial c \<and> clk_isPaused c"
  then show "GetClock mem c t = clk_pts c"
    by (simp add: GetClock_def)
next
  assume run: "mem (clk_queueSerial c) = clk_serial c \<and> \<not> clk_isPaused c"
  then show formula: "GetClock mem c t =
        dsub (dadd (clk_ptsDrift c) t)
             (dmul (dsub t (clk_lastUpdated c)) (dsub (Dbl 1) (clk_speed c)))"
    by (simp add: GetClock_def)
  show "isnan (GetClock mem c t) \<longleftrightarrow>
         isnan (clk_ptsDrift c) \<or> isnan t \<or> isnan (clk_lastUpdated c) \<or> isnan (clk_speed c)"
    unfolding formula by auto
  assume "clk_ptsDrift c = Dbl drift \<and> t = Dbl now \<and> clk_lastUpdated c = Dbl updated \<and>
       clk_speed c = Dbl speed"
  then show "GetClock mem c t = Dbl (drift + now - (now - updated) * (1 - speed))"
    unfolding formula by (simp only: dadd.simps dsub.simps dmul.simps)
qed

theorem GetClock_NaN_witness:
  "GetClock (\<lambda>r. 1) (zero_Clock\<lparr>clk_serial := 0\<rparr>) (Dbl 1) = NaN \<and>
   GetClock (\<lambda>r. 1) (zero_Clock\<lparr>clk_serial := 1, clk_isPaused := True, clk_pts := Dbl 5\<rparr>) (Dbl 1)
     = Dbl 5 \<and>
   GetClock (\<lambda>r. 1) (zero_Clock\<lparr>clk_serial := 1, clk_ptsDrift := Dbl 2,
       clk_lastUpdated := Dbl 1, clk_speed := Dbl 0.5\<rparr>) (Dbl 3) = Dbl 4 \<and>
   isnan (GetClock (\<lambda>r. 1) (zero_Clock\<lparr>clk_serial := 1, clk_ptsDrift := NaN\<rparr>) (Dbl 3))"
  using GetClock_NaN [where mem = "\<lambda>r. 1" and c = "zero_Clock\<lparr>clk_serial := 0\<rparr>" and t = "Dbl 1"]
    GetClock_NaN [where mem = "\<lambda>r. 1"
      and c = "zero_Clock\<lparr>clk_serial := 1, clk_isPaused := True, clk_pts := Dbl 5\<rparr>"
      and t = "Dbl 1"]
    GetClock_NaN [where mem = "\<lambda>r. 1"
      and c = "zero_Clock\<lparr>clk_serial := 1, clk_ptsDrift := Dbl 2,
         clk_lastUpdated := Dbl 1, clk_speed := Dbl 0.5\<rparr>"
      and t = "Dbl 3" and drift = 2 and now = 3 and updated = 1 and speed = "0.5"]
    GetClock_NaN [where mem = "\<lambda>r. 1"
      and c = "zero_Clock\<lparr>clk_serial := 1, clk_ptsDrift := NaN\<rparr>" and t = "Dbl 3"]
  by (simp add: zero_Clock_def)

section \<open>Frame duration\<close>

text \<open>
  C4, as stated: \<^verbatim>\<open>GetFrameDuration(a, b)\<close> returns \<open>a.duration\<close> in every case other than
  a valid gap, including when the serials of the two frames differ. This fails: for two
  frames of different serials the function returns 0.0, whatever \<open>a.duration\<close> is.
\<close>

theorem GetFrameDuration_counterexample:
  "GetFrameDuration (zero_PlayerState\<lparr>ps_maxFrameDuration := Dbl 10\<rparr>)
      \<lparr>fr_pts = Dbl 1, fr_duration = Dbl 0.04, fr_pos = 0, fr_serial = 1\<rparr>
      \<lparr>fr_pts = Dbl 1.04, fr_duration = Dbl 0.04, fr_pos = 0, fr_serial = 2\<rparr>
    = Dbl 0 \<and>
   fr_duration \<lparr>fr_pts = Dbl 1, fr_duration = Dbl 0.04, fr_pos = 0, fr_serial = 1\<rparr> \<noteq> Dbl 0"
  by (simp add: GetFrameDuration_def)

text \<open>
  C4, amended: when the serials of the two frames match, \<^verbatim>\<open>GetFrameDuration(a, b)\<close> returns
  \<open>b.pts - a.pts\<close> if that difference is a valid gap (not NaN, positive, at most
  \<open>maxFrameDuration\<close>) and \<open>a.duration\<close> otherwise; when the serials differ it returns
  0.0. (\<open>maxFrameDuration\<close> is a number: \<^verbatim>\<open>LoadMedia\<close> sets it to 10.0 or 3600.0.)
\<close>

theorem GetFrameDuration_cases:
  "\<not> isnan (ps_maxFrameDuration state) \<Longrightarrow>
   GetFrameDuration state a b =
     (if fr_serial a = fr_serial b
      then (if valid_gap (dsub (fr_pts b) (fr_pts a)) (ps_maxFrameDuration state)
            then dsub (fr_pts b) (fr_pts a) else fr_duration a)
      else Dbl 0)"
  by (cases "ps_maxFrameDuration state"; cases "dsub (fr_pts b) (fr_pts a)")
     (auto simp: GetFrameDuration_def valid_gap_def dgt_def Let_def)

theorem GetFrameDuration_cases_witness:
  "GetFrameDuration (zero_PlayerState\<lparr>ps_maxFrameDuration := Dbl 10\<rparr>)
      \<lparr>fr_pts = Dbl 1, fr_duration = Dbl 0.04, fr_pos = 0, fr_serial = 1\<rparr>
      \<lparr>fr_pts = Dbl 1.5, fr_duration = Dbl 0.04, fr_pos = 0, fr_serial = 1\<rparr> = Dbl 0.5 \<and>
   GetFrameDuration (zero_PlayerState\<lparr>ps_maxFrameDuration := Dbl 10\<rparr>)
      \<lparr>fr_pts = Dbl 1, fr_duration = Dbl 0.04, fr_pos = 0, fr_serial = 1\<rparr>
      \<lparr>fr_pts = NaN, fr_duration = Dbl 0.04, fr_pos = 0, fr_serial = 1\<rparr> = Dbl 0.04 \<and>
   GetFrameDuration (zero_PlayerState\<lparr>ps_maxFrameDuration := Dbl 10\<rparr>)
      \<lparr>fr_pts = Dbl 1, fr_duration = Dbl 0.04, fr_pos = 0, fr_serial = 1\<rparr>
      \<lparr>fr_pts = Dbl 1.5, fr_duration = Dbl 0.04, fr_pos = 0, fr_serial = 2\<rparr> = Dbl 0"
  using
    GetFrameDuration_cases [of "zero_PlayerState\<lparr>ps_maxFrameDuration := Dbl 10\<rparr>"
      "\<lparr>fr_pts = Dbl 1, fr_duration = Dbl 0.04, fr_pos = 0, fr_serial = 1\<rparr>"
      "\<lparr>fr_pts = Dbl 1.5, fr_duration = Dbl 0.04, fr_pos = 0, fr_serial = 1\<rparr>"]
    GetFrameDuration_cases [of "zero_PlayerState\<lparr>ps_maxFrameDuration := Dbl 10\<rparr>"
      "\<lparr>fr_pts = Dbl 1, fr_duration = Dbl 0.04, fr_pos = 0, fr_serial = 1\<rparr>"
      "\<lparr>fr_pts = NaN, fr_duration = Dbl 0.04, fr_pos = 0, fr_serial = 1\<rparr>"]
    GetFrameDuration_cases [of "zero_PlayerState\<lparr>ps_maxFrameDuration := Dbl 10\<rparr>"
      "\<lparr>fr_pts = Dbl 1, fr_duration = Dbl 0.04, fr_pos = 0, fr_serial = 1\<rparr>"
      "\<lparr>fr_pts = Dbl 1.5, fr_duration = Dbl 0.04, fr_pos = 0, fr_serial = 2\<rparr>"]
  by (simp add: valid_gap_def dgt_def)

section \<open>A failed seek\<close>

text \<open>
  C5, as stated: when \<^verbatim>\<open>avformat_seek_file\<close> returns a negative result the player state is
  left unchanged; in particular the reader's EOF flag keeps the value it had before the
  seek request. This fails: after the failed seek of a reader that was at end of file,
  \<^verbatim>\<open>reader.isEOF\<close> is false.
\<close>

theorem reader_seek_failure_counterexample:
  "seek_result (\<lambda>mn target mx flags. - 1) player_at_eof_seeking <s 0 \<and>
   rd_isEOF (ps_reader player_at_eof_seeking) \<and>
   \<not> rd_isEOF (ps_reader
        (reader_seek (\<lambda>mn target mx flags. - 1) 104 True True (\<lambda>i. Dbl 1) player_at_eof_seeking))"
  by (simp add: player_at_eof_seeking_def zero_PlayerState_def reader_seek_def seek_result_def
      Let_def word_sless_alt)

text \<open>
  C5, amended: when \<^verbatim>\<open>avformat_seek_file\<close> returns a negative result, no decoder is touched
  (no packet queue is flushed, no flush packet is pushed, no decoder's EOF flag is
  cleared, no decoder is resumed); the seek request is marked as handled and the reader's
  EOF flag is cleared; and if the player is paused, \<^verbatim>\<open>StepToNextFrame\<close> runs on that
  state. If the player is not paused, nothing else changes: the three clocks, the pause
  flag, the step flag and the frame timer are as before.
\<close>

theorem reader_seek_failure:
  "sk_isRequired (ps_seek state) \<Longrightarrow> seek_result avformat_seek_file state <s 0 \<Longrightarrow>
   (let s2 = state\<lparr>ps_seek := (ps_seek state)\<lparr>sk_isRequired := False\<rparr>,
                   ps_reader := (ps_reader state)\<lparr>rd_isEOF := False\<rparr>\<rparr>;
        s' = reader_seek avformat_seek_file node_size alloc_a alloc_v tm state
    in s' = (if ps_isPaused state then StepToNextFrame s2 (\<lambda>i. tm (Suc i)) else s2) \<and>
       a_decoder (ps_audio s') = a_decoder (ps_audio state) \<and>
       v_decoder (ps_video s') = v_decoder (ps_video state) \<and>
       \<not> rd_isEOF (ps_reader s') \<and> \<not> sk_isRequired (ps_seek s') \<and>
       (\<not> ps_isPaused state \<longrightarrow>
          ps_externalClock s' = ps_externalClock state \<and> ps_video s' = ps_video state \<and>
          ps_audio s' = ps_audio state \<and> ps_isPaused s' = ps_isPaused state \<and>
          ps_step s' = ps_step state \<and> ps_frameTimer s' = ps_frameTimer state))"
  by (simp add: reader_seek_def Let_def StepToNextFrame_def StreamTogglePause_def)

theorem reader_seek_failure_witness:
  "reader_seek (\<lambda>mn target mx flags. - 1) 104 True True (\<lambda>i. Dbl 1) player_at_eof_seeking =
     player_at_eof_seeking\<lparr>
       ps_seek := \<lparr>sk_pos = 5000000, sk_rel = 5000000, sk_seekFlags = AVSEEK_FLAG_ANY,
                   sk_isRequired = False\<rparr>,
       ps_reader := \<lparr>rd_resumeSignal = True, rd_stopRequest = False, rd_isEOF = False\<rparr>\<rparr> \<and>
   reader_seek (\<lambda>mn target mx flags. - 1) 104 True True (\<lambda>i. Dbl 1)
       (player_at_eof_seeking\<lparr>ps_isPaused := True\<rparr>) =
     StepToNextFrame (player_at_eof_seeking\<lparr>
       ps_seek := \<lparr>sk_pos = 5000000, sk_rel = 5000000, sk_seekFlags = AVSEEK_FLAG_ANY,
                   sk_isRequired = False\<rparr>,
       ps_reader := \<lparr>rd_resumeSignal = True, rd_stopRequest = False, rd_isEOF = False\<rparr>,
       ps_isPaused := True\<rparr>) (\<lambda>i. Dbl 1)"
  using reader_seek_failure [of player_at_eof_seeking "\<lambda>mn target mx flags. - 1" 104 True True
      "\<lambda>i. Dbl 1"]
    reader_seek_failure [of "player_at_eof_seeking\<lparr>ps_isPaused := True\<rparr>"
      "\<lambda>mn target mx flags. - 1" 104 True True "\<lambda>i. Dbl 1"]
  by (simp add: player_at_eof_seeking_def zero_PlayerState_def seek_result_def
      Let_def word_sless_alt)

section \<open>Synchronising one clock to another\<close>

text \<open>
  C6, as stated: \<^verbatim>\<open>SyncClockToSlave\<close> snaps this clock to the other (sets its \<open>pts\<close> and
  serial to the other's reading and serial) exactly when this clock's reading is NaN or
  the readings differ by more than 10 s. This fails: the external clock after a
  byte-based seek reads NaN, and the audio clock, whose queue serial has moved, reads NaN
  too; \<^verbatim>\<open>SyncClockToSlave\<close> leaves the external clock as it is, with a serial other than
  the audio clock's.
\<close>

theorem SyncClockToSlave_counterexample:
  "isnan (GetClock (serial_mem player_after_seek) (ps_externalClock player_after_seek) (Dbl 5)) \<and>
   SyncClockToSlave (serial_mem player_after_seek) (ps_externalClock player_after_seek)
       (a_clock (ps_audio player_after_seek)) (Dbl 5) (Dbl 5) (Dbl 5)
     = ps_externalClock player_after_seek \<and>
   clk_serial (ps_externalClock player_after_seek)
     \<noteq> clk_serial (a_clock (ps_audio player_after_seek))"
  by (simp add: player_after_seek_def init_clocks_def InitClock_def SetClock_def SetClockAt_def
      GetClock_def zero_PlayerState_def zero_Clock_def SyncClockToSlave_def zero_Decoder_def
      zero_PacketQueue_def Let_def)

text \<open>
  C6, amended: \<^verbatim>\<open>SyncClockToSlave\<close> snaps this clock to the other clock exactly when the
  other clock's reading is not NaN and this clock's reading is NaN or differs from it by
  more than 10 s; snapping sets this clock's \<open>pts\<close> to the other's reading, its serial
  to the other's serial, and re-anchors it at the current time. In all other cases, so
  whenever the other clock reads NaN, this clock is left unchanged.
\<close>

theorem SyncClockToSlave_snap:
  "(GetClock mem slave t_slave = NaN \<longrightarrow> SyncClockToSlave mem c slave t_c t_slave t_set = c) \<and>
   (GetClock mem slave t_slave = Dbl y \<and> GetClock mem c t_c = NaN \<longrightarrow>
      SyncClockToSlave mem c slave t_c t_slave t_set =
        c\<lparr>clk_pts := Dbl y, clk_lastUpdated := t_set, clk_ptsDrift := dsub (Dbl y) t_set,
          clk_serial := clk_serial slave\<rparr>) \<and>
   (GetClock mem slave t_slave = Dbl y \<and> GetClock mem c t_c = Dbl x \<longrightarrow>
      SyncClockToSlave mem c slave t_c t_slave t_set =
        (if 10 < \<bar>x - y\<bar>
         then c\<lparr>clk_pts := Dbl y, clk_lastUpdated := t_set, clk_ptsDrift := dsub (Dbl y) t_set,
                clk_serial := clk_serial slave\<rparr>
         else c))"
  by (simp add: SyncClockToSlave_def SetClock_def SetClockAt_def AV_NOSYNC_THRESHOLD_def dgt_def
      Let_def)

theorem SyncClockToSlave_snap_witness:
  "SyncClockToSlave (\<lambda>r. 0) (zero_Clock\<lparr>clk_isPaused := True\<rparr>)
      (zero_Clock\<lparr>clk_isPaused := True, clk_serial := 1\<rparr>) (Dbl 0) (Dbl 0) (Dbl 0)
     = zero_Clock\<lparr>clk_isPaused := True\<rparr> \<and>
   SyncClockToSlave (\<lambda>r. 0) (zero_Clock\<lparr>clk_isPaused := True, clk_serial := 1\<rparr>)
      (zero_Clock\<lparr>clk_isPaused := True, clk_pts := Dbl 7\<rparr>) (Dbl 0) (Dbl 0) (Dbl 2)
     = zero_Clock\<lparr>clk_isPaused := True, clk_pts := Dbl 7, clk_lastUpdated := Dbl 2,
         clk_ptsDrift := Dbl 5, clk_serial := 0\<rparr> \<and>
   SyncClockToSlave (\<lambda>r. 0) (zero_Clock\<lparr>clk_isPaused := True, clk_pts := Dbl 20\<rparr>)
      (zero_Clock\<lparr>clk_isPaused := True, clk_pts := Dbl 7\<rparr>) (Dbl 0) (Dbl 0) (Dbl 2)
     = zero_Clock\<lparr>clk_isPaused := True, clk_pts := Dbl 7, clk_lastUpdated := Dbl 2,
         clk_ptsDrift := Dbl 5\<rparr> \<and>
   SyncClockToSlave (\<lambda>r. 0) (zero_Clock\<lparr>clk_isPaused := True, clk_pts := Dbl 8\<rparr>)
      (zero_Clock\<lparr>clk_isPaused := True, clk_pts := Dbl 7\<rparr>) (Dbl 0) (Dbl 0) (Dbl 2)
     = zero_Clock\<lparr>clk_isPaused := True, clk_pts := Dbl 8\<rparr>"
  using
    SyncClockToSlave_snap [where mem = "\<lambda>r. 0" and c = "zero_Clock\<lparr>clk_isPaused := True\<rparr>"
      and slave = "zero_Clock\<lparr>clk_isPaused := True, clk_serial := 1\<rparr>"
      and t_c = "Dbl 0" and t_slave = "Dbl 0" and t_set = "Dbl 0"]
    SyncClockToSlave_snap [where mem = "\<lambda>r. 0"
      and c = "zero_Clock\<lparr>clk_isPaused := True, clk_serial := 1\<rparr>"
      and slave = "zero_Clock\<lparr>clk_isPaused := True, clk_pts := Dbl 7\<rparr>"
      and t_c = "Dbl 0" and t_slave = "Dbl 0" and t_set = "Dbl 2" and y = 7]
    SyncClockToSlave_snap [where mem = "\<lambda>r. 0"
      and c = "zero_Clock\<lparr>clk_isPaused := True, clk_pts := Dbl 20\<rparr>"
      and slave = "zero_Clock\<lparr>clk_isPaused := True, clk_pts := Dbl 7\<rparr>"
      and t_c = "Dbl 0" and t_slave = "Dbl 0" and t_set = "Dbl 2" and y = 7 and x = 20]
    SyncClockToSlave_snap [where mem = "\<lambda>r. 0"
      and c = "zero_Clock\<lparr>clk_isPaused := True, clk_pts := Dbl 8\<rparr>"
      and slave = "zero_Clock\<lparr>clk_isPaused := True, clk_pts := Dbl 7\<rparr>"
      and t_c = "Dbl 0" and t_slave = "Dbl 0" and t_set = "Dbl 2" and y = 7 and x = 8]
  by (simp add: zero_Clock_def GetClock_def)

section \<open>The reader's queue limit\<close>

text \<open>
  C7, as stated: the reader sleeps and loops without reading a packet exactly when the
  summed byte size of the two packet queues exceeds 16 MiB, or both streams have enough
  packets, where a stream has enough packets when its index is invalid, its
  attached-picture flag is set, or its queue holds at least 25 packets and at least 1 s
  of duration. This fails: with exactly 25 packets and two seconds in each queue the
  stated condition holds, and the reader goes on to read a packet.
\<close>

theorem reader_queue_limit_counterexample:
  "backpressure_spec player_25_packets \<and> \<not> reader_queue_limit player_25_packets"
  by (simp add: backpressure_spec_def enough_packets_spec_def queued_seconds_def
      reader_queue_limit_def StreamHasEnoughPackets_def player_25_packets_def
      stream_25_packets_def queue_25_packets_def zero_PlayerState_def zero_Decoder_def
      zero_PacketQueue_def MIN_PACKET_FRAMES_def MAX_PACKET_QUEUE_SIZE_def
      AV_DISPOSITION_ATTACHED_PIC_def word_sless_alt)

text \<open>
  C7, amended: the reader sleeps and loops without reading a packet exactly when the
  buffer is not infinite and the summed byte size of the two packet queues exceeds
  16 MiB, or both streams have enough packets, where a stream has enough packets when
  its index is negative, its attached-picture flag is set, or its queue holds more than
  25 packets and its queued duration is either zero or more than 1 s. (The time bases
  have non-zero denominators, as those of FFmpeg's streams do.)
\<close>

theorem reader_queue_limit_iff:
  "q_den (st_time_base (ms_stream (a_stream (ps_audio state)))) \<noteq> 0 \<Longrightarrow>
   q_den (st_time_base (ms_stream (v_stream (ps_video state)))) \<noteq> 0 \<Longrightarrow>
   reader_queue_limit state \<longleftrightarrow>
     (\<not> ps_isInfiniteBuffer state \<and>
      16 * 1024 * 1024 <
        unat (pq_size (dec_packetsQueue (a_decoder (ps_audio state))) +
              pq_size (dec_packetsQueue (v_decoder (ps_video state))))) \<or>
     (enough_packets_code (ms_stream (a_stream (ps_audio state)))
         (ms_streamIndex (a_stream (ps_audio state)))
         (dec_packetsQueue (a_decoder (ps_audio state))) \<and>
      enough_packets_code (ms_stream (v_stream (ps_video state)))
         (ms_streamIndex (v_stream (ps_video state)))
         (dec_packetsQueue (v_decoder (ps_video state))))"
  by (simp add: reader_queue_limit_def StreamHasEnoughPackets_code MAX_PACKET_QUEUE_SIZE_def
      word_less_nat_alt)

theorem reader_queue_limit_iff_witness:
  "\<not> reader_queue_limit player_25_packets \<and>
   reader_queue_limit (player_25_packets\<lparr>ps_video := (ps_video player_25_packets)
       \<lparr>v_decoder := zero_Decoder\<lparr>dec_packetsQueue := queue_25_packets\<lparr>pq_size := 16777217\<rparr>\<rparr>\<rparr>\<rparr>)"
  using reader_queue_limit_iff [of player_25_packets]
    reader_queue_limit_iff [of "player_25_packets\<lparr>ps_video := (ps_video player_25_packets)
       \<lparr>v_decoder := zero_Decoder\<lparr>dec_packetsQueue := queue_25_packets\<lparr>pq_size := 16777217\<rparr>\<rparr>\<rparr>\<rparr>"]
  by (simp add: enough_packets_code_def queued_seconds_def player_25_packets_def
      stream_25_packets_def queue_25_packets_def zero_PlayerState_def zero_Decoder_def
      zero_PacketQueue_def AV_DISPOSITION_ATTACHED_PIC_def)

section \<open>The speed of the external clock\<close>

text \<open>
  C8, as stated: if either stream's packet queue holds at most 2 packets, the speed is
  decreased by 0.001, bounded below by 0.900. This fails for an audio-only player: the
  packet queue of the absent video stream holds no packet, the audio queue holds 11, and
  the speed goes up from 1.0 to 1.001.
\<close>

theorem UpdateExternalClockSpeed_counterexample:
  "queue_low_spec player_audio_only \<and>
   clk_speed (ps_externalClock player_audio_only) = Dbl 1 \<and>
   clk_speed (ps_externalClock (UpdateExternalClockSpeed player_audio_only (Dbl 1) (Dbl 1)))
     = Dbl 1.001"
  by (simp add: queue_low_spec_def player_audio_only_def init_clocks_def InitClock_def
      SetClock_def SetClockAt_def zero_PlayerState_def zero_Clock_def zero_Decoder_def
      zero_PacketQueue_def zero_MediaStream_def UpdateExternalClockSpeed_def Let_def
      EXTERNAL_CLOCK_MIN_FRAMES_def EXTERNAL_CLOCK_MAX_FRAMES_def EXTERNAL_CLOCK_SPEED_MAX_def
      EXTERNAL_CLOCK_SPEED_STEP_def fplMin_def)

text \<open>
  C8, amended: if a valid stream's packet queue holds at most 2 packets, the speed is
  decreased by 0.001, bounded below by 0.900; otherwise, if each stream is invalid or has
  more than 10 packets queued, the speed is increased by 0.001, bounded above by 1.010;
  otherwise a speed other than 1.0 is moved toward 1.0 by
  \<open>0.001 * (1 - speed) / |1 - speed|\<close>, and a speed of 1.0 leaves the player as it is.
  Consequently, starting from speed 1.0, the speed stays within \<open>[0.900, 1.010]\<close> over
  any number of updates, whatever happens to the rest of the player between them.
\<close>

theorem UpdateExternalClockSpeed_cases:
  "(queue_low state \<longrightarrow>
      clk_speed (ps_externalClock (UpdateExternalClockSpeed state t_get t_set)) =
        fplMax (Dbl 0.900) (dsub (clk_speed (ps_externalClock state)) (Dbl 0.001))) \<and>
   (\<not> queue_low state \<and> queues_high state \<longrightarrow>
      clk_speed (ps_externalClock (UpdateExternalClockSpeed state t_get t_set)) =
        fplMin (Dbl 1.010) (dadd (clk_speed (ps_externalClock state)) (Dbl 0.001))) \<and>
   (\<not> queue_low state \<and> \<not> queues_high state \<and> clk_speed (ps_externalClock state) = Dbl s \<and>
    s \<noteq> 1 \<longrightarrow>
      clk_speed (ps_externalClock (UpdateExternalClockSpeed state t_get t_set)) =
        Dbl (s + 0.001 * (1 - s) / \<bar>1 - s\<bar>)) \<and>
   (\<not> queue_low state \<and> \<not> queues_high state \<and> clk_speed (ps_externalClock state) = Dbl 1 \<longrightarrow>
      UpdateExternalClockSpeed state t_get t_set = state) \<and>
   (clk_speed (ps_externalClock state) = Dbl 1 \<longrightarrow>
      speed_in_range (UpdateExternalClockSpeed_run state ts))"
proof -
  have "speed_in_range state" if "clk_speed (ps_externalClock state) = Dbl 1"
    using that by (simp add: speed_in_range_def)
  then have "clk_speed (ps_externalClock state) = Dbl 1 \<longrightarrow>
      speed_in_range (UpdateExternalClockSpeed_run state ts)"
    by (simp add: speed_in_range_run)
  then show ?thesis
    using speed_low [of state t_get t_set] speed_high [of state t_get t_set]
      speed_nudge [of state s t_get t_set] speed_keep [of state t_get t_set]
    by blast
qed

theorem UpdateExternalClockSpeed_cases_witness:
  "\<not> queue_low player_audio_only \<and> queues_high player_audio_only \<and>
   clk_speed (ps_externalClock (UpdateExternalClockSpeed player_audio_only (Dbl 1) (Dbl 1)))
     = Dbl 1.001 \<and>
   speed_in_range (UpdateExternalClockSpeed_run player_audio_only
     [(player_audio_only, Dbl 1, Dbl 1), (player_25_packets, Dbl 2, Dbl 2),
      (zero_PlayerState, Dbl 3, Dbl 3)])"
  using UpdateExternalClockSpeed_cases [where state = player_audio_only and t_get = "Dbl 1"
      and t_set = "Dbl 1" and s = 1
      and ts = "[(player_audio_only, Dbl 1, Dbl 1), (player_25_packets, Dbl 2, Dbl 2),
                 (zero_PlayerState, Dbl 3, Dbl 3)]"]
  by (simp add: queue_low_def queues_high_def player_audio_only_def init_clocks_def
      InitClock_def SetClock_def SetClockAt_def zero_PlayerState_def zero_Clock_def
      zero_Decoder_def zero_PacketQueue_def zero_MediaStream_def fplMin_def Let_def)

section \<open>Frame queue: the ring\<close>

text \<open>
  C9. Start from the empty queue that \<^verbatim>\<open>InitFrameQueue\<close> makes, for any requested capacity
  and keep-last flag, and run any sequence of peeks, \<^verbatim>\<open>NextWritable\<close> and \<^verbatim>\<open>NextReadable\<close> in
  which \<^verbatim>\<open>NextWritable\<close> is only invoked after a successful \<^verbatim>\<open>PeekWritableFromFrameQueue\<close>
  and \<^verbatim>\<open>NextReadable\<close> only after a successful \<^verbatim>\<open>PeekReadableFromFrameQueue\<close>. Then in
  the state reached, hence after each operation, \<open>0 \<le> count \<le> capacity\<close>,
  \<open>count - readIndexShown \<ge> 0\<close>, and \<open>readIndexShown\<close> is 0 or 1.
\<close>

theorem FrameQueue_ring_invariant:
  "fq_steps (fq_start capacity keepLast) ops = Some r \<Longrightarrow> fq_invariant (fr_queue r)"
  using fq_steps_invariant [OF fq_start_invariant] fq_run_invariant_queue by blast

theorem FrameQueue_ring_invariant_witness:
  "fq_steps (fq_start 4 1) sample_frame_ops =
     Some \<lparr>fr_queue = \<lparr>fq_readIndex = 1, fq_writeIndex = 2, fq_count = 1, fq_capacity = 4,
              fq_keepLast = 1, fq_readIndexShown = 1, fq_isValid = True\<rparr>,
           fr_may_write = False, fr_may_read = False\<rparr> \<and>
   fq_invariant \<lparr>fq_readIndex = 1, fq_writeIndex = 2, fq_count = 1, fq_capacity = 4,
     fq_keepLast = 1, fq_readIndexShown = 1, fq_isValid = True\<rparr>"
proof -
  have run: "fq_steps (fq_start 4 1) sample_frame_ops =
     Some \<lparr>fr_queue = \<lparr>fq_readIndex = 1, fq_writeIndex = 2, fq_count = 1, fq_capacity = 4,
              fq_keepLast = 1, fq_readIndexShown = 1, fq_isValid = True\<rparr>,
           fr_may_write = False, fr_may_read = False\<rparr>"
    by (simp add: sample_frame_ops_def fq_start_def InitFrameQueue_def zero_FrameQueue_def
        MAX_FRAME_QUEUE_COUNT_def PeekWritableFromFrameQueue_def PeekReadableFromFrameQueue_def NextWritable_def
        NextReadable_def c_rem_def signed_modulo_int_def word_sle_eq)
  from FrameQueue_ring_invariant [OF run] run show ?thesis by simp
qed

section \<open>Master clock selection\<close>

text \<open>
  C10. When the requested sync type is video-master and the video stream is invalid,
  \<^verbatim>\<open>GetMasterSyncType\<close> returns audio-master whether or not the audio stream is valid; it
  does not fall back further to the external clock, and \<^verbatim>\<open>GetMasterClock\<close> then reads the
  audio clock.
\<close>

theorem GetMasterSyncType_video_fallback:
  "ps_syncType state = VideoMaster \<Longrightarrow> \<not> ms_isValid (v_stream (ps_video state)) \<Longrightarrow>
     GetMasterSyncType state = AudioMaster \<and>
     GetMasterClock state time = GetClock (serial_mem state) (a_clock (ps_audio state)) time"
  by (simp add: GetMasterSyncType_def GetMasterClock_def)

theorem GetMasterSyncType_video_fallback_witness:
  "\<not> ms_isValid (a_stream (ps_audio (zero_PlayerState\<lparr>ps_syncType := VideoMaster\<rparr>))) \<and>
   GetMasterSyncType (zero_PlayerState\<lparr>ps_syncType := VideoMaster\<rparr>) = AudioMaster \<and>
   GetMasterClock (zero_PlayerState\<lparr>ps_syncType := VideoMaster\<rparr>) (Dbl 1) = Dbl 0"
  using GetMasterSyncType_video_fallback [of "zero_PlayerState\<lparr>ps_syncType := VideoMaster\<rparr>" "Dbl 1"]
  by (simp add: zero_PlayerState_def zero_MediaStream_def zero_Clock_def zero_Decoder_def
      zero_PacketQueue_def GetClock_def)

end
